theory Spec2Isabelle
  imports Main
begin

section \<open>Python values\<close>

text \<open>
  The executor of \<^verbatim>\<open>a2anet/executors/langgraph.py\<close> inspects message contents
  dynamically (\<^verbatim>\<open>isinstance\<close>, truthiness, \<^verbatim>\<open>dict.get\<close>), so the contents are
  modelled by one type of Python values. A float is a finite binary fraction
  (mantissa and exponent) or one of the three special values; the program only ever
  tests a float for truthiness.
\<close>

datatype pyfloat = Finite int int | PosInf | NegInf | NaN

datatype pyval =
    PNone
  | PBool bool
  | PInt int
  | PFloat pyfloat
  | PStr string
  | PList "pyval list"
  | PDict "(string \<times> pyval) list"

text \<open>Python truthiness, as tested by \<^verbatim>\<open>if x\<close>, \<^verbatim>\<open>not x\<close> and \<^verbatim>\<open>a and b\<close>.\<close>

fun truthy :: "pyval \<Rightarrow> bool" where
  "truthy PNone = False"
| "truthy (PBool b) = b"
| "truthy (PInt n) = (n \<noteq> 0)"
| "truthy (PFloat (Finite m e)) = (m \<noteq> 0)"
| "truthy (PFloat f) = True"
| "truthy (PStr s) = (s \<noteq> [])"
| "truthy (PList xs) = (xs \<noteq> [])"
| "truthy (PDict kvs) = (kvs \<noteq> [])"

text \<open>
  \<^verbatim>\<open>d.get(k)\<close> on a dictionary kept as an association list (keys are distinct in a
  dictionary, so the first binding is the binding): \<^verbatim>\<open>None\<close> when the key is absent.
\<close>

definition dict_get :: "(string \<times> pyval) list \<Rightarrow> string \<Rightarrow> pyval" where
  "dict_get d k = (case map_of d k of None \<Rightarrow> PNone | Some v \<Rightarrow> v)"

definition of_optional :: "string option \<Rightarrow> pyval" where
  "of_optional x = (case x of None \<Rightarrow> PNone | Some s \<Rightarrow> PStr s)"

section \<open>Exceptions\<close>

text \<open>
  Each constructor is one exception class, not a family: \<^verbatim>\<open>JSONDecodeError\<close> and
  pydantic's \<^verbatim>\<open>ValidationError\<close> are subclasses of \<^verbatim>\<open>ValueError\<close> in Python, but
  an \<^verbatim>\<open>except (json.JSONDecodeError, TypeError)\<close> clause catches neither a plain
  \<^verbatim>\<open>ValueError\<close> nor a \<^verbatim>\<open>ValidationError\<close>.
\<close>

datatype exn =
    Exception string
  | JSONDecodeError
  | TypeError
  | ValueError
  | RecursionError
  | ValidationError
  | IndexError
  | AttributeError

section \<open>\<^verbatim>\<open>json.loads\<close>\<close>

text \<open>
  \<^verbatim>\<open>json.loads(s)\<close> of the standard library raises \<^verbatim>\<open>TypeError\<close> when \<open>s\<close> is not
  text (\<open>str\<close>, \<open>bytes\<close> or \<open>bytearray\<close>; the values here are never bytes) and otherwise
  hands the text to the decoder. The decoder is library code: it is the parameter
  \<open>decode\<close> of every definition that parses JSON. It returns the decoded value or
  raises: \<^verbatim>\<open>JSONDecodeError\<close> for a text that is not a JSON document, and also
  \<^verbatim>\<open>ValueError\<close> (an integer literal beyond the digit limit) or
  \<^verbatim>\<open>RecursionError\<close> (nesting too deep). No assumption is made on which exception a
  decoder raises.
\<close>

type_synonym decoder = "string \<Rightarrow> exn + pyval"

definition json_loads :: "decoder \<Rightarrow> pyval \<Rightarrow> exn + pyval" where
  "json_loads decode s =
     (case s of
        PStr text \<Rightarrow> decode text
      | _ \<Rightarrow> Inl TypeError)"

section \<open>LangChain messages and the graph\<close>

text \<open>
  \<^verbatim>\<open>ToolCall\<close>: the keys \<^verbatim>\<open>name\<close>, \<^verbatim>\<open>args\<close> and \<^verbatim>\<open>id\<close> the executor reads. The
  arguments of a call are a dictionary (\<^verbatim>\<open>args: dict[str, Any]\<close>), as LangChain validates
  when the message is built.
\<close>

record tool_call =
  tc_name :: string
  tc_args :: "(string \<times> pyval) list"
  tc_id :: "string option"

record ai_message =
  ai_id :: "string option"
  ai_content :: pyval
  ai_tool_calls :: "tool_call list"

record tool_message =
  tm_id :: "string option"
  tm_content :: pyval
  tm_tool_call_id :: string
  tm_name :: "string option"

text \<open>
  \<^verbatim>\<open>AnyMessage\<close>: the executor tells \<^verbatim>\<open>AIMessage\<close> and \<^verbatim>\<open>ToolMessage\<close> apart
  and reads only the id of every other kind (human, system, ...).
\<close>

datatype any_message =
    AIMessage ai_message
  | ToolMessage tool_message
  | OtherMessage "string option"

fun message_id :: "any_message \<Rightarrow> string option" where
  "message_id (AIMessage m) = ai_id m"
| "message_id (ToolMessage m) = tm_id m"
| "message_id (OtherMessage i) = i"

section \<open>A2A protocol types\<close>

text \<open>
  An identifier is a string received from outside or a fresh one: \<open>Uuid4 n\<close> is the
  string made by the \<open>n\<close>-th call of \<^verbatim>\<open>str(uuid.uuid4())\<close> in the run.
\<close>

datatype ident = Ident string | Uuid4 nat

datatype role = Role_agent | Role_user

datatype task_state =
    TS_submitted
  | TS_working
  | TS_input_required
  | TS_completed
  | TS_canceled
  | TS_failed
  | TS_rejected
  | TS_auth_required
  | TS_unknown

text \<open>
  A message part holds a text or structured data. The constructors of the SDK,
  \<^verbatim>\<open>TextPart(text=...)\<close> and \<^verbatim>\<open>DataPart(data=...)\<close>, are pydantic models with the
  fields \<^verbatim>\<open>text: str\<close> and \<^verbatim>\<open>data: dict[str, Any]\<close>: they raise
  \<^verbatim>\<open>ValidationError\<close> for any other value.
\<close>

datatype part = PartText string | PartData "(string \<times> pyval) list"

definition TextPart :: "pyval \<Rightarrow> exn + part" where
  "TextPart text = (case text of PStr s \<Rightarrow> Inr (PartText s) | _ \<Rightarrow> Inl ValidationError)"

definition DataPart :: "pyval \<Rightarrow> exn + part" where
  "DataPart data = (case data of PDict d \<Rightarrow> Inr (PartData d) | _ \<Rightarrow> Inl ValidationError)"

record a2a_message =
  m_contextId :: "ident option"
  m_messageId :: ident
  m_parts :: "part list"
  m_metadata :: "(string \<times> pyval) list option"
  m_role :: role
  m_taskId :: "ident option"

record task =
  t_id :: ident
  t_contextId :: ident
  t_state :: task_state
  t_history :: "a2a_message list"

record artifact =
  a_artifactId :: ident
  a_name :: string
  a_description :: string
  a_parts :: "part list"

record task_status_update_event =
  su_taskId :: ident
  su_contextId :: ident
  su_final :: bool
  su_state :: task_state
  su_message :: "a2a_message option"

record task_artifact_update_event =
  au_artifact :: artifact
  au_contextId :: ident
  au_taskId :: ident

datatype event =
    TaskEvent task
  | TaskStatusUpdateEvent task_status_update_event
  | TaskArtifactUpdateEvent task_artifact_update_event

text \<open>
  Modelled from the spec: \<^verbatim>\<open>a2anet.types.langgraph.StructuredResponse\<close>, whose
  declaration lies outside the executor's module. The spec gives it an outcome state
  (an enumeration with the terminal value "completed" and other values), a
  human-readable outcome message, an artifact title, an artifact description and an
  artifact output payload (text or JSON-serializable).
\<close>

record structured_response =
  task_state :: task_state
  task_state_message :: string
  artifact_title :: string
  artifact_description :: string
  artifact_output :: pyval

text \<open>
  A value stored in the graph state: a \<^verbatim>\<open>StructuredResponse\<close> object (truthy, as
  every object without \<^verbatim>\<open>__bool__\<close> and \<^verbatim>\<open>__len__\<close>) or a plain Python value.
\<close>

datatype state_value = Structured structured_response | Plain pyval

fun truthy_value :: "state_value \<Rightarrow> bool" where
  "truthy_value (Structured r) = True"
| "truthy_value (Plain v) = truthy v"

record state_snapshot =
  snapshot_values :: "(string \<times> state_value) list"

record runnable_config =
  thread_id :: ident

record graph_input =
  in_messages :: "(string \<times> string) list"

text \<open>
  The compiled graph, as the executor uses it: \<^verbatim>\<open>astream\<close> in value mode yields
  one event per tick, each the list of all messages so far (the value under
  \<^verbatim>\<open>"messages"\<close>); \<^verbatim>\<open>get_state\<close> is read once, after the stream has ended. The
  stream is a finite list: the model covers the executions whose stream ends.
\<close>

record graph =
  astream :: "graph_input \<Rightarrow> runnable_config \<Rightarrow> any_message list list"
  get_state :: "runnable_config \<Rightarrow> state_snapshot"

record request_context =
  rc_message :: "a2a_message option"
  rc_user_input :: string
  rc_current_task :: "task option"


section \<open>The effects: event queue, log, fresh identifiers\<close>

record world =
  queue :: "event list"
  log :: "any_message list"
  uuids_drawn :: nat

definition uuid4 :: "world \<Rightarrow> ident \<times> world" where
  "uuid4 w = (Uuid4 (uuids_drawn w), w\<lparr>uuids_drawn := Suc (uuids_drawn w)\<rparr>)"

definition enqueue_event :: "event \<Rightarrow> world \<Rightarrow> world" where
  "enqueue_event e w = w\<lparr>queue := queue w @ [e]\<rparr>"

definition logger_info :: "any_message \<Rightarrow> world \<Rightarrow> world" where
  "logger_info m w = w\<lparr>log := log w @ [m]\<rparr>"

subsection \<open>The SDK helpers the executor calls\<close>

text \<open>
  The helpers of \<^verbatim>\<open>a2a.utils\<close> belong to the protocol SDK. Each is modelled with the
  validation it performs and the fresh identifiers it draws, in the order in which the
  SDK evaluates them: a part is built, and may be rejected, before the identifier of
  the message or artifact around it is drawn.
\<close>

definition get_user_input :: "request_context \<Rightarrow> string" where
  "get_user_input ctx = rc_user_input ctx"

text \<open>An optional identifier as a condition: \<^verbatim>\<open>None\<close> and the empty string are falsy.\<close>

fun truthy_id :: "ident option \<Rightarrow> bool" where
  "truthy_id None = False"
| "truthy_id (Some (Ident s)) = (s \<noteq> [])"
| "truthy_id (Some (Uuid4 n)) = True"

text \<open>
  \<^verbatim>\<open>new_task(request)\<close> raises \<^verbatim>\<open>ValueError\<close> for a request without parts and for a
  request with an empty text part; it takes the task id and the context id of the
  request where they are truthy and draws fresh ones otherwise.
\<close>

definition new_task :: "a2a_message \<Rightarrow> world \<Rightarrow> (exn + task) \<times> world" where
  "new_task request w =
     (if m_parts request = [] then (Inl ValueError, w)
      else if PartText [] \<in> set (m_parts request) then (Inl ValueError, w)
      else
        (case (if truthy_id (m_taskId request) then (the (m_taskId request), w) else uuid4 w) of
           (tid, w1) \<Rightarrow>
             (case (if truthy_id (m_contextId request) then (the (m_contextId request), w1)
                    else uuid4 w1) of
                (cid, w2) \<Rightarrow>
                  (Inr \<lparr>t_id = tid, t_contextId = cid, t_state = TS_submitted,
                        t_history = [request]\<rparr>, w2))))"

definition new_agent_text_message ::
  "pyval \<Rightarrow> ident \<Rightarrow> ident \<Rightarrow> world \<Rightarrow> (exn + a2a_message) \<times> world" where
  "new_agent_text_message text context_id task_id w =
     (case TextPart text of
        Inl e \<Rightarrow> (Inl e, w)
      | Inr p \<Rightarrow>
          (case uuid4 w of
             (mid, w1) \<Rightarrow>
               (Inr \<lparr>m_contextId = Some context_id, m_messageId = mid, m_parts = [p],
                     m_metadata = None, m_role = Role_agent, m_taskId = Some task_id\<rparr>, w1)))"

definition new_data_artifact ::
  "string \<Rightarrow> string \<Rightarrow> pyval \<Rightarrow> world \<Rightarrow> (exn + artifact) \<times> world" where
  "new_data_artifact name description data w =
     (case DataPart data of
        Inl e \<Rightarrow> (Inl e, w)
      | Inr p \<Rightarrow>
          (case uuid4 w of
             (aid, w1) \<Rightarrow>
               (Inr \<lparr>a_artifactId = aid, a_name = name, a_description = description,
                     a_parts = [p]\<rparr>, w1)))"

definition new_text_artifact ::
  "string \<Rightarrow> string \<Rightarrow> pyval \<Rightarrow> world \<Rightarrow> (exn + artifact) \<times> world" where
  "new_text_artifact name description text w =
     (case TextPart text of
        Inl e \<Rightarrow> (Inl e, w)
      | Inr p \<Rightarrow>
          (case uuid4 w of
             (aid, w1) \<Rightarrow>
               (Inr \<lparr>a_artifactId = aid, a_name = name, a_description = description,
                     a_parts = [p]\<rparr>, w1)))"

text \<open>\<^verbatim>\<open>TaskUpdater(event_queue, task.id, task.contextId)\<close>; the queue is the world's.\<close>

record task_updater =
  tu_task_id :: ident
  tu_context_id :: ident

definition TaskUpdater :: "ident \<Rightarrow> ident \<Rightarrow> task_updater" where
  "TaskUpdater task_id context_id = \<lparr>tu_task_id = task_id, tu_context_id = context_id\<rparr>"

definition update_status ::
  "task_updater \<Rightarrow> task_state \<Rightarrow> a2a_message \<Rightarrow> bool \<Rightarrow> world \<Rightarrow> world" where
  "update_status tu s message final w =
     enqueue_event
       (TaskStatusUpdateEvent
          \<lparr>su_taskId = tu_task_id tu, su_contextId = tu_context_id tu, su_final = final,
           su_state = s, su_message = Some message\<rparr>) w"

section \<open>The executor\<close>

text \<open>
  Every function of the executor returns the exception it raises, or its value, together
  with the world it leaves: what was queued and logged before a raise stays.
\<close>

subsection \<open>\<^verbatim>\<open>_handle_tool_call\<close>\<close>

text \<open>
  The keyword arguments of \<^verbatim>\<open>Message(...)\<close> are evaluated in the order written:
  the message id is drawn before the part is built.
\<close>

definition handle_tool_call ::
  "tool_call \<Rightarrow> task \<Rightarrow> task_updater \<Rightarrow> world \<Rightarrow> (exn + unit) \<times> world" where
  "handle_tool_call tc task tu w =
     (case uuid4 w of
        (mid, w1) \<Rightarrow>
          (case DataPart (PDict (tc_args tc)) of
             Inl e \<Rightarrow> (Inl e, w1)
           | Inr p \<Rightarrow>
               (let message =
                  \<lparr>m_contextId = Some (t_contextId task), m_messageId = mid,
                   m_parts = [p],
                   m_metadata = Some [(''type'', PStr ''tool-call''),
                                      (''toolCallId'', of_optional (tc_id tc)),
                                      (''toolCallName'', PStr (tc_name tc))],
                   m_role = Role_agent, m_taskId = Some (t_id task)\<rparr>
                in (Inr (), update_status tu TS_working message False w1))))"

subsection \<open>\<^verbatim>\<open>_handle_ai_message\<close>\<close>

text \<open>
  \<^verbatim>\<open>await task_updater.update_status(state, new_agent_text_message(text, ...), final)\<close>:
  the message is built first, and a raise while building it leaves the queue alone.
\<close>

definition send_text ::
  "task_updater \<Rightarrow> task_state \<Rightarrow> pyval \<Rightarrow> task \<Rightarrow> bool \<Rightarrow> world \<Rightarrow> (exn + unit) \<times> world" where
  "send_text tu s text task final w =
     (case new_agent_text_message text (t_contextId task) (t_id task) w of
        (Inl e, w1) \<Rightarrow> (Inl e, w1)
      | (Inr m, w1) \<Rightarrow> (Inr (), update_status tu s m final w1))"

text \<open>The body of \<^verbatim>\<open>for item in content\<close>, and the loop.\<close>

definition content_item ::
  "pyval \<Rightarrow> task \<Rightarrow> task_updater \<Rightarrow> world \<Rightarrow> (exn + unit) \<times> world" where
  "content_item item task tu w =
     (case item of
        PStr s \<Rightarrow> send_text tu TS_working item task False w
      | PDict d \<Rightarrow>
          if dict_get d ''type'' = PStr ''text'' \<and> truthy (dict_get d ''text'')
          then send_text tu TS_working (dict_get d ''text'') task False w
          else (Inr (), w)
      | _ \<Rightarrow> (Inr (), w))"

fun content_loop ::
  "pyval list \<Rightarrow> task \<Rightarrow> task_updater \<Rightarrow> world \<Rightarrow> (exn + unit) \<times> world" where
  "content_loop [] task tu w = (Inr (), w)"
| "content_loop (item # items) task tu w =
     (case content_item item task tu w of
        (Inl e, w1) \<Rightarrow> (Inl e, w1)
      | (Inr _, w1) \<Rightarrow> content_loop items task tu w1)"

text \<open>\<^verbatim>\<open>for tool_call in message.tool_calls\<close>.\<close>

fun tool_calls_loop ::
  "tool_call list \<Rightarrow> task \<Rightarrow> task_updater \<Rightarrow> world \<Rightarrow> (exn + unit) \<times> world" where
  "tool_calls_loop [] task tu w = (Inr (), w)"
| "tool_calls_loop (tc # tcs) task tu w =
     (case handle_tool_call tc task tu w of
        (Inl e, w1) \<Rightarrow> (Inl e, w1)
      | (Inr _, w1) \<Rightarrow> tool_calls_loop tcs task tu w1)"

definition handle_ai_message ::
  "ai_message \<Rightarrow> task \<Rightarrow> task_updater \<Rightarrow> world \<Rightarrow> (exn + unit) \<times> world" where
  "handle_ai_message message task tu w =
     (let content = ai_content message in
      case (case content of
              PStr s \<Rightarrow>
                if s \<noteq> [] then send_text tu TS_working content task False w
                else (Inr (), w)
            | PList items \<Rightarrow> content_loop items task tu w
            | _ \<Rightarrow> (Inr (), w)) of
        (Inl e, w1) \<Rightarrow> (Inl e, w1)
      | (Inr _, w1) \<Rightarrow>
          if ai_tool_calls message \<noteq> []
          then tool_calls_loop (ai_tool_calls message) task tu w1
          else (Inr (), w1))"

subsection \<open>\<^verbatim>\<open>_handle_tool_message\<close>\<close>

text \<open>
  The \<^verbatim>\<open>try\<close> block holds \<^verbatim>\<open>json.loads\<close> and \<^verbatim>\<open>DataPart(data=...)\<close>; the clause
  \<^verbatim>\<open>except (json.JSONDecodeError, TypeError)\<close> catches these two classes and builds
  \<^verbatim>\<open>TextPart(text=...)\<close> from the raw content. Every other exception of the block,
  and every exception of the clause's body, leaves the handler.
\<close>

definition handle_tool_message ::
  "decoder \<Rightarrow> tool_message \<Rightarrow> task \<Rightarrow> task_updater \<Rightarrow> world \<Rightarrow> (exn + unit) \<times> world" where
  "handle_tool_message decode message task tu w =
     (let tool_call_result_content = tm_content message in
      case (case (case json_loads decode tool_call_result_content of
                    Inl e \<Rightarrow> Inl e
                  | Inr tool_call_result \<Rightarrow> DataPart tool_call_result) of
              Inr part \<Rightarrow> Inr part
            | Inl e \<Rightarrow>
                if e = JSONDecodeError \<or> e = TypeError
                then TextPart tool_call_result_content
                else Inl e) of
        Inl e \<Rightarrow> (Inl e, w)
      | Inr part \<Rightarrow>
          (case uuid4 w of
             (mid, w1) \<Rightarrow>
               (let msg =
                  \<lparr>m_contextId = Some (t_contextId task), m_messageId = mid,
                   m_parts = [part],
                   m_metadata = Some [(''type'', PStr ''tool-call-result''),
                                      (''toolCallId'', PStr (tm_tool_call_id message)),
                                      (''toolCallName'', of_optional (tm_name message))],
                   m_role = Role_agent, m_taskId = Some (t_id task)\<rparr>
                in (Inr (), update_status tu TS_working msg False w1))))"

subsection \<open>\<^verbatim>\<open>_handle_structured_response_artifact\<close>\<close>

text \<open>
  The \<^verbatim>\<open>try\<close> block holds \<^verbatim>\<open>json.loads\<close> and \<^verbatim>\<open>new_data_artifact\<close>; the clause
  \<^verbatim>\<open>except (json.JSONDecodeError, TypeError)\<close> builds the text artifact from the raw
  output.
\<close>

definition handle_structured_response_artifact ::
  "decoder \<Rightarrow> structured_response \<Rightarrow> task \<Rightarrow> world \<Rightarrow> (exn + unit) \<times> world" where
  "handle_structured_response_artifact decode sr task w =
     (case (case (case json_loads decode (artifact_output sr) of
                    Inl e \<Rightarrow> (Inl e, w)
                  | Inr data \<Rightarrow>
                      new_data_artifact (artifact_title sr) (artifact_description sr) data w) of
              (Inr artifact, w1) \<Rightarrow> (Inr artifact, w1)
            | (Inl e, w1) \<Rightarrow>
                if e = JSONDecodeError \<or> e = TypeError
                then new_text_artifact (artifact_title sr) (artifact_description sr)
                       (artifact_output sr) w1
                else (Inl e, w1)) of
        (Inl e, w1) \<Rightarrow> (Inl e, w1)
      | (Inr artifact, w1) \<Rightarrow>
          (Inr (),
           enqueue_event
             (TaskArtifactUpdateEvent
                \<lparr>au_artifact = artifact, au_contextId = t_contextId task,
                 au_taskId = t_id task\<rparr>) w1))"

subsection \<open>\<^verbatim>\<open>_handle_structured_response\<close>\<close>

text \<open>
  \<^verbatim>\<open>TaskState(structured_response.task_state)\<close> looks the enumeration member up by
  value; on a member of the enumeration it is that member.
\<close>

definition TaskState :: "task_state \<Rightarrow> task_state" where
  "TaskState s = s"

definition values_get :: "(string \<times> state_value) list \<Rightarrow> string \<Rightarrow> state_value" where
  "values_get vs k = (case map_of vs k of None \<Rightarrow> Plain PNone | Some v \<Rightarrow> v)"

definition handle_structured_response ::
  "decoder \<Rightarrow> graph \<Rightarrow> runnable_config \<Rightarrow> task \<Rightarrow> task_updater \<Rightarrow> world \<Rightarrow> (exn + unit) \<times> world" where
  "handle_structured_response decode g config task tu w =
     (let current_state = get_state g config;
          structured_response = values_get (snapshot_values current_state) ''structured_response''
      in if \<not> truthy_value structured_response
         then (Inl (Exception ''No structured response. `graph` must have a `structured_response` state.''), w)
         else
           (case structured_response of
              Plain v \<Rightarrow> (Inl AttributeError, w)
            | Structured sr \<Rightarrow>
                (let ts = TaskState (task_state sr) in
                 if ts \<noteq> TS_completed
                 then send_text tu ts (PStr (task_state_message sr)) task True w
                 else
                   (case handle_structured_response_artifact decode sr task w of
                      (Inl e, w1) \<Rightarrow> (Inl e, w1)
                    | (Inr _, w1) \<Rightarrow>
                        send_text tu TS_completed (PStr (task_state_message sr)) task True w1))))"

subsection \<open>\<^verbatim>\<open>execute\<close>\<close>

text \<open>
  One turn of \<^verbatim>\<open>async for event in self.graph.astream(...)\<close>:
  \<^verbatim>\<open>event["messages"][-1]\<close> raises \<^verbatim>\<open>IndexError\<close> on an empty list; a message whose
  id is in \<^verbatim>\<open>message_ids\<close> is skipped; any other is logged, its id is added, and it
  is dispatched on its class. An exception of a handler ends the loop and the call.
\<close>

definition stream_step ::
  "decoder \<Rightarrow> task \<Rightarrow> task_updater \<Rightarrow> any_message list \<Rightarrow> string option set \<Rightarrow> world
     \<Rightarrow> (exn + string option set) \<times> world" where
  "stream_step decode task tu event message_ids w =
     (if event = [] then (Inl IndexError, w)
      else
        (let message = last event in
         if message_id message \<in> message_ids then (Inr message_ids, w)
         else
           (let w1 = logger_info message w;
                message_ids1 = insert (message_id message) message_ids
            in case (case message of
                       AIMessage m \<Rightarrow> handle_ai_message m task tu w1
                     | ToolMessage m \<Rightarrow> handle_tool_message decode m task tu w1
                     | OtherMessage _ \<Rightarrow> (Inr (), w1)) of
                 (Inl e, w2) \<Rightarrow> (Inl e, w2)
               | (Inr _, w2) \<Rightarrow> (Inr message_ids1, w2))))"

fun stream_loop ::
  "decoder \<Rightarrow> task \<Rightarrow> task_updater \<Rightarrow> any_message list list \<Rightarrow> string option set \<Rightarrow> world
     \<Rightarrow> (exn + string option set) \<times> world" where
  "stream_loop decode task tu [] message_ids w = (Inr message_ids, w)"
| "stream_loop decode task tu (event # events) message_ids w =
     (case stream_step decode task tu event message_ids w of
        (Inl e, w1) \<Rightarrow> (Inl e, w1)
      | (Inr message_ids1, w1) \<Rightarrow> stream_loop decode task tu events message_ids1 w1)"

text \<open>
  Lines 63 to 67: the task of the request, or a new one that is handed to the queue at
  once.
\<close>

definition resolve_task ::
  "request_context \<Rightarrow> a2a_message \<Rightarrow> world \<Rightarrow> (exn + task) \<times> world" where
  "resolve_task ctx request w =
     (case rc_current_task ctx of
        Some t \<Rightarrow> (Inr t, w)
      | None \<Rightarrow>
          (case new_task request w of
             (Inl e, w1) \<Rightarrow> (Inl e, w1)
           | (Inr t, w1) \<Rightarrow> (Inr t, enqueue_event (TaskEvent t) w1)))"

definition execute ::
  "decoder \<Rightarrow> graph \<Rightarrow> request_context \<Rightarrow> world \<Rightarrow> (exn + unit) \<times> world" where
  "execute decode g ctx w =
     (case rc_message ctx of
        None \<Rightarrow> (Inl (Exception ''No message in context''), w)
      | Some request \<Rightarrow>
          (let query = get_user_input ctx in
           case resolve_task ctx request w of
             (Inl e, w1) \<Rightarrow> (Inl e, w1)
           | (Inr task, w1) \<Rightarrow>
               (let task_updater = TaskUpdater (t_id task) (t_contextId task);
                    inputs = \<lparr>in_messages = [(''user'', query)]\<rparr>;
                    config = \<lparr>thread_id = t_contextId task\<rparr>
                in case stream_loop decode task task_updater (astream g inputs config) {} w1 of
                     (Inl e, w2) \<Rightarrow> (Inl e, w2)
                   | (Inr _, w2) \<Rightarrow>
                       handle_structured_response decode g config task task_updater w2)))"

subsection \<open>\<^verbatim>\<open>cancel\<close>\<close>

definition cancel :: "request_context \<Rightarrow> world \<Rightarrow> (exn + unit) \<times> world" where
  "cancel ctx w = (Inl (Exception ''Cancel not supported''), w)"

section \<open>What the caller observes\<close>

text \<open>
  The definitions of this section describe events, event lists and outcomes in the
  words of the specification; the theorems below compare what the executor does with
  them.
\<close>

text \<open>
  A handler appends events to the queue and draws one fresh identifier for each of
  them; the log is left alone.
\<close>

definition add_events :: "event list \<Rightarrow> world \<Rightarrow> world" where
  "add_events evs w = w\<lparr>queue := queue w @ evs, uuids_drawn := uuids_drawn w + length evs\<rparr>"

text \<open>
  A status event of state \<open>s\<close> whose message is the agent's and has the single
  plain-text part \<open>text\<close>; \<open>n\<close> numbers the fresh message id.
\<close>

definition agent_text_status ::
  "task \<Rightarrow> task_updater \<Rightarrow> task_state \<Rightarrow> bool \<Rightarrow> nat \<Rightarrow> string \<Rightarrow> event" where
  "agent_text_status task tu s final n text =
     TaskStatusUpdateEvent
       \<lparr>su_taskId = tu_task_id tu, su_contextId = tu_context_id tu, su_final = final,
        su_state = s,
        su_message = Some \<lparr>m_contextId = Some (t_contextId task), m_messageId = Uuid4 n,
                           m_parts = [PartText text], m_metadata = None, m_role = Role_agent,
                           m_taskId = Some (t_id task)\<rparr>\<rparr>"

text \<open>
  Section 4.2 of the specification, element by element: a plain string is emitted; a
  structured fragment is emitted when its kind marker equals "text" and its text field
  is non-empty (truthy); every other shape is skipped.
\<close>

fun text_of_item :: "pyval \<Rightarrow> pyval option" where
  "text_of_item (PStr s) = Some (PStr s)"
| "text_of_item (PDict d) =
     (if dict_get d ''type'' = PStr ''text'' \<and> truthy (dict_get d ''text'')
      then Some (dict_get d ''text'') else None)"
| "text_of_item _ = None"

text \<open>
  The texts of an assistant message's content, in order: the content itself when it is
  a non-empty plain string, the emitted elements when it is a sequence, nothing
  otherwise.
\<close>

fun content_texts :: "pyval \<Rightarrow> pyval list" where
  "content_texts (PStr s) = (if s = [] then [] else [PStr s])"
| "content_texts (PList items) = List.map_filter text_of_item items"
| "content_texts _ = []"

text \<open>
  A text to emit is a string in every well-formed content; the strings before the first
  text that is none are those that can be emitted before the message is rejected.
\<close>

fun is_str :: "pyval \<Rightarrow> bool" where
  "is_str (PStr s) = True"
| "is_str _ = False"

fun leading_strings :: "pyval list \<Rightarrow> string list" where
  "leading_strings (PStr s # vs) = s # leading_strings vs"
| "leading_strings _ = []"

definition text_events :: "task \<Rightarrow> task_updater \<Rightarrow> nat \<Rightarrow> string list \<Rightarrow> event list" where
  "text_events task tu n texts =
     map (\<lambda>(i, t). agent_text_status task tu TS_working False i t) (enumerate n texts)"

text \<open>
  Section 4.3: the working status event of one tool call, with the argument payload as
  its single structured-data part and the metadata of a tool-call event.
\<close>

definition tool_call_status :: "task \<Rightarrow> task_updater \<Rightarrow> nat \<Rightarrow> tool_call \<Rightarrow> event" where
  "tool_call_status task tu n tc =
     TaskStatusUpdateEvent
       \<lparr>su_taskId = tu_task_id tu, su_contextId = tu_context_id tu, su_final = False,
        su_state = TS_working,
        su_message = Some \<lparr>m_contextId = Some (t_contextId task), m_messageId = Uuid4 n,
                           m_parts = [PartData (tc_args tc)],
                           m_metadata = Some [(''type'', PStr ''tool-call''),
                                              (''toolCallId'', of_optional (tc_id tc)),
                                              (''toolCallName'', PStr (tc_name tc))],
                           m_role = Role_agent, m_taskId = Some (t_id task)\<rparr>\<rparr>"

definition tool_call_events ::
  "task \<Rightarrow> task_updater \<Rightarrow> nat \<Rightarrow> tool_call list \<Rightarrow> event list" where
  "tool_call_events task tu n tcs =
     map (\<lambda>(i, tc). tool_call_status task tu i tc) (enumerate n tcs)"

text \<open>
  The part both parsers with fallback arrive at (sections 4.4 and 4.6), or the exception
  that leaves them: structured data when the payload is a text that decodes to a
  dictionary; plain text when it is a text whose decoding raises one of the two caught
  exceptions; \<^verbatim>\<open>ValidationError\<close> when it decodes to a value that is no dictionary, and
  when it is no text at all; the decoder's exception when that is not caught.
\<close>

definition parsed_part :: "decoder \<Rightarrow> pyval \<Rightarrow> exn + part" where
  "parsed_part decode raw =
     (case raw of
        PStr text \<Rightarrow>
          (case decode text of
             Inr (PDict d) \<Rightarrow> Inr (PartData d)
           | Inr _ \<Rightarrow> Inl ValidationError
           | Inl e \<Rightarrow> if e = JSONDecodeError \<or> e = TypeError then Inr (PartText text) else Inl e)
      | _ \<Rightarrow> Inl ValidationError)"

text \<open>Section 4.4: the working status event of a tool result with payload \<open>p\<close>.\<close>

definition tool_result_status ::
  "task \<Rightarrow> task_updater \<Rightarrow> nat \<Rightarrow> tool_message \<Rightarrow> part \<Rightarrow> event" where
  "tool_result_status task tu n message p =
     TaskStatusUpdateEvent
       \<lparr>su_taskId = tu_task_id tu, su_contextId = tu_context_id tu, su_final = False,
        su_state = TS_working,
        su_message = Some \<lparr>m_contextId = Some (t_contextId task), m_messageId = Uuid4 n,
                           m_parts = [p],
                           m_metadata = Some [(''type'', PStr ''tool-call-result''),
                                              (''toolCallId'', PStr (tm_tool_call_id message)),
                                              (''toolCallName'', of_optional (tm_name message))],
                           m_role = Role_agent, m_taskId = Some (t_id task)\<rparr>\<rparr>"

text \<open>Section 4.6: the artifact event of a completed response, with payload \<open>p\<close>.\<close>

definition artifact_event :: "structured_response \<Rightarrow> task \<Rightarrow> nat \<Rightarrow> part \<Rightarrow> event" where
  "artifact_event sr task n p =
     TaskArtifactUpdateEvent
       \<lparr>au_artifact = \<lparr>a_artifactId = Uuid4 n, a_name = artifact_title sr,
                        a_description = artifact_description sr, a_parts = [p]\<rparr>,
        au_contextId = t_contextId task, au_taskId = t_id task\<rparr>"

text \<open>
  The events of one dispatched message, and how its handler ends. An assistant message
  is well formed when all its texts are strings; otherwise its handler raises at the
  first text that is none, after the events of the strings before it and before any
  tool call.
\<close>

definition well_formed_texts :: "ai_message \<Rightarrow> bool" where
  "well_formed_texts m = list_all is_str (content_texts (ai_content m))"

definition ai_message_events :: "task \<Rightarrow> task_updater \<Rightarrow> nat \<Rightarrow> ai_message \<Rightarrow> event list" where
  "ai_message_events task tu n m =
     text_events task tu n (leading_strings (content_texts (ai_content m)))
     @ (if well_formed_texts m
        then tool_call_events task tu (n + length (content_texts (ai_content m)))
               (ai_tool_calls m)
        else [])"

fun message_result :: "decoder \<Rightarrow> any_message \<Rightarrow> exn + unit" where
  "message_result decode (AIMessage m) =
     (if well_formed_texts m then Inr () else Inl ValidationError)"
| "message_result decode (ToolMessage m) =
     (case parsed_part decode (tm_content m) of Inl e \<Rightarrow> Inl e | Inr p \<Rightarrow> Inr ())"
| "message_result decode (OtherMessage i) = Inr ()"

fun message_events ::
  "decoder \<Rightarrow> task \<Rightarrow> task_updater \<Rightarrow> nat \<Rightarrow> any_message \<Rightarrow> event list" where
  "message_events decode task tu n (AIMessage m) = ai_message_events task tu n m"
| "message_events decode task tu n (ToolMessage m) =
     (case parsed_part decode (tm_content m) of
        Inl e \<Rightarrow> []
      | Inr p \<Rightarrow> [tool_result_status task tu n m p])"
| "message_events decode task tu n (OtherMessage i) = []"

text \<open>Kinds of events.\<close>

fun is_working_status :: "event \<Rightarrow> bool" where
  "is_working_status (TaskStatusUpdateEvent u) = (su_state u = TS_working \<and> \<not> su_final u)"
| "is_working_status _ = False"

fun is_final_status :: "event \<Rightarrow> bool" where
  "is_final_status (TaskStatusUpdateEvent u) = su_final u"
| "is_final_status _ = False"

fun is_artifact :: "event \<Rightarrow> bool" where
  "is_artifact (TaskArtifactUpdateEvent u) = True"
| "is_artifact _ = False"

text \<open>The text of a working status event whose message has a single plain-text part.\<close>

fun working_text :: "event \<Rightarrow> string option" where
  "working_text (TaskStatusUpdateEvent u) =
     (if su_state u = TS_working \<and> \<not> su_final u
      then (case su_message u of
              Some m \<Rightarrow> (case m_parts m of [PartText t] \<Rightarrow> Some t | _ \<Rightarrow> None)
            | None \<Rightarrow> None)
      else None)"
| "working_text _ = None"

text \<open>The error of a graph that ends without a structured response.\<close>

definition no_structured_response :: exn where
  "no_structured_response =
     Exception ''No structured response. `graph` must have a `structured_response` state.''"

text \<open>
  The arguments \<^verbatim>\<open>execute\<close> passes to the graph for a task: the user's text as the
  only input message, the context id as the thread.
\<close>

definition graph_inputs :: "request_context \<Rightarrow> graph_input" where
  "graph_inputs ctx = \<lparr>in_messages = [(''user'', get_user_input ctx)]\<rparr>"

definition graph_config :: "task \<Rightarrow> runnable_config" where
  "graph_config task = \<lparr>thread_id = t_contextId task\<rparr>"

section \<open>A sample run\<close>

text \<open>
  A decoder that knows four JSON documents, with the values \<^verbatim>\<open>json.loads\<close> gives them;
  every other text of the sample run (\<^verbatim>\<open>not json\<close>, \<^verbatim>\<open>plain text\<close>) is not JSON.
\<close>

definition example_decode :: decoder where
  \<open>example_decode text =
     (case map_of [(''{"a":1}'', PDict [(''a'', PInt 1)]),
                   (''{"x":1}'', PDict [(''x'', PInt 1)]),
                   (''42'', PInt 42),
                   (''[1, 2]'', PList [PInt 1, PInt 2])] text of
        Some v \<Rightarrow> Inr v
      | None \<Rightarrow> Inl JSONDecodeError)\<close>

definition example_request :: a2a_message where
  "example_request =
     \<lparr>m_contextId = Some (Ident ''ctx-1''), m_messageId = Ident ''msg-1'',
      m_parts = [PartText ''weather in Paris?''], m_metadata = None,
      m_role = Role_user, m_taskId = None\<rparr>"

definition example_ctx :: request_context where
  "example_ctx =
     \<lparr>rc_message = Some example_request, rc_user_input = ''weather in Paris?'',
      rc_current_task = None\<rparr>"

definition example_task :: task where
  "example_task =
     \<lparr>t_id = Ident ''task-1'', t_contextId = Ident ''ctx-1'', t_state = TS_working,
      t_history = []\<rparr>"

definition example_updater :: task_updater where
  "example_updater = TaskUpdater (Ident ''task-1'') (Ident ''ctx-1'')"

definition example_world :: world where
  "example_world = \<lparr>queue = [], log = [], uuids_drawn = 0\<rparr>"

definition example_call :: tool_call where
  "example_call =
     \<lparr>tc_name = ''get_weather'', tc_args = [(''city'', PStr ''Paris'')],
      tc_id = Some ''call-1''\<rparr>"

definition example_human :: any_message where
  "example_human = OtherMessage (Some ''h1'')"

definition example_ai :: ai_message where
  "example_ai =
     \<lparr>ai_id = Some ''a1'',
      ai_content = PList [PStr ''Let me look.'',
                          PDict [(''type'', PStr ''text''), (''text'', PStr ''Calling a tool.'')],
                          PDict [(''type'', PStr ''tool_use''), (''id'', PStr ''call-1'')],
                          PDict [(''type'', PStr ''text''), (''text'', PStr [])]],
      ai_tool_calls = [example_call]\<rparr>"

definition example_tool :: tool_message where
  \<open>example_tool =
     \<lparr>tm_id = Some ''t1'', tm_content = PStr ''{"a":1}'', tm_tool_call_id = ''call-1'',
      tm_name = Some ''get_weather''\<rparr>\<close>

definition example_tool_text :: tool_message where
  "example_tool_text =
     \<lparr>tm_id = Some ''t2'', tm_content = PStr ''not json'', tm_tool_call_id = ''call-2'',
      tm_name = None\<rparr>"

definition example_answer :: ai_message where
  "example_answer = \<lparr>ai_id = Some ''a2'', ai_content = PStr ''Sunny.'', ai_tool_calls = []\<rparr>"

definition example_silent :: ai_message where
  "example_silent = \<lparr>ai_id = Some ''a3'', ai_content = PStr [], ai_tool_calls = []\<rparr>"

text \<open>
  Inputs on which the executor raises: tool results whose content is the JSON number
  \<^verbatim>\<open>42\<close>, the JSON array \<^verbatim>\<open>[1, 2]\<close> and a list of strings; an assistant message with
  a text fragment whose text field is the number 5, with and without a tool call.
\<close>

definition example_tool_number :: tool_message where
  "example_tool_number =
     \<lparr>tm_id = Some ''t3'', tm_content = PStr ''42'', tm_tool_call_id = ''call-3'',
      tm_name = Some ''count''\<rparr>"

definition example_tool_array :: tool_message where
  "example_tool_array =
     \<lparr>tm_id = Some ''t4'', tm_content = PStr ''[1, 2]'', tm_tool_call_id = ''call-4'',
      tm_name = Some ''count''\<rparr>"

definition example_tool_list :: tool_message where
  "example_tool_list =
     \<lparr>tm_id = Some ''t5'', tm_content = PList [PStr ''sunny''], tm_tool_call_id = ''call-5'',
      tm_name = Some ''get_weather''\<rparr>"

definition example_odd :: ai_message where
  "example_odd =
     \<lparr>ai_id = Some ''a4'',
      ai_content = PList [PDict [(''type'', PStr ''text''), (''text'', PInt 5)], PStr ''after''],
      ai_tool_calls = []\<rparr>"

definition example_odd_call :: ai_message where
  "example_odd_call =
     \<lparr>ai_id = Some ''a5'',
      ai_content = PList [PDict [(''type'', PStr ''text''), (''text'', PInt 5)]],
      ai_tool_calls = [example_call]\<rparr>"

text \<open>
  The stream of a run with one tool call. The last tick adds no message (the graph
  only stores its structured response), so it delivers the answer a second time.
\<close>

definition example_ticks :: "any_message list list" where
  "example_ticks =
     [[example_human],
      [example_human, AIMessage example_ai],
      [example_human, AIMessage example_ai, ToolMessage example_tool]]"

definition example_last_tick :: "any_message list" where
  "example_last_tick =
     [example_human, AIMessage example_ai, ToolMessage example_tool, AIMessage example_answer]"

definition example_response :: "task_state \<Rightarrow> string \<Rightarrow> pyval \<Rightarrow> structured_response" where
  "example_response s message out =
     \<lparr>task_state = s, task_state_message = message, artifact_title = ''Weather'',
      artifact_description = ''The weather in Paris'', artifact_output = out\<rparr>"

definition example_graph :: "(string \<times> state_value) list \<Rightarrow> graph" where
  "example_graph vs =
     \<lparr>astream = (\<lambda>inputs config. example_ticks @ [example_last_tick, example_last_tick]),
      get_state = (\<lambda>config. \<lparr>snapshot_values = vs\<rparr>)\<rparr>"

definition example_values :: "state_value \<Rightarrow> (string \<times> state_value) list" where
  "example_values v = [(''messages'', Plain (PList [])), (''structured_response'', v)]"

text \<open>
  The task \<^verbatim>\<open>execute\<close> makes for the sample request, the world once it is queued, and
  the seen ids and the world at the end of the sample stream.
\<close>

definition example_new_task :: task where
  "example_new_task =
     \<lparr>t_id = Uuid4 0, t_contextId = Ident ''ctx-1'', t_state = TS_submitted,
      t_history = [example_request]\<rparr>"

definition example_started :: world where
  "example_started = \<lparr>queue = [TaskEvent example_new_task], log = [], uuids_drawn = 1\<rparr>"

definition example_new_updater :: task_updater where
  "example_new_updater = TaskUpdater (Uuid4 0) (Ident ''ctx-1'')"

definition example_seen :: "string option set" where
  "example_seen = {Some ''h1'', Some ''a1'', Some ''t1'', Some ''a2''}"

definition example_streamed :: world where
  "example_streamed =
     \<lparr>queue =
        [TaskEvent example_new_task,
         agent_text_status example_new_task example_new_updater TS_working False 1
           ''Let me look.'',
         agent_text_status example_new_task example_new_updater TS_working False 2
           ''Calling a tool.'',
         tool_call_status example_new_task example_new_updater 3 example_call,
         tool_result_status example_new_task example_new_updater 4 example_tool
           (PartData [(''a'', PInt 1)]),
         agent_text_status example_new_task example_new_updater TS_working False 5 ''Sunny.''],
      log = [example_human, AIMessage example_ai, ToolMessage example_tool,
             AIMessage example_answer],
      uuids_drawn = 6\<rparr>"

section \<open>The effect of each handler\<close>

lemma add_events_add: "add_events ys (add_events xs w) = add_events (xs @ ys) w"
  by (simp add: add_events_def)

lemma add_events_Nil: "add_events [] w = w"
  by (simp add: add_events_def)

lemma uuids_add_events: "uuids_drawn (add_events evs w) = uuids_drawn w + length evs"
  by (simp add: add_events_def)

lemma queue_add_events: "queue (add_events evs w) = queue w @ evs"
  by (simp add: add_events_def)

lemma log_add_events: "log (add_events evs w) = log w"
  by (simp add: add_events_def)

lemma send_text_str:
  "send_text tu s (PStr x) task f w =
     (Inr (), add_events [agent_text_status task tu s f (uuids_drawn w) x] w)"
  by (simp add: send_text_def new_agent_text_message_def TextPart_def uuid4_def
      update_status_def enqueue_event_def add_events_def agent_text_status_def)

lemma send_text_other:
  "\<not> is_str t \<Longrightarrow> send_text tu s t task f w = (Inl ValidationError, w)"
  by (cases t) (simp_all add: send_text_def new_agent_text_message_def TextPart_def)

lemma text_events_Nil: "text_events task tu n [] = []"
  by (simp add: text_events_def)

lemma text_events_Cons:
  "text_events task tu n (t # ts) =
     agent_text_status task tu TS_working False n t # text_events task tu (Suc n) ts"
  by (simp add: text_events_def)

lemma length_text_events: "length (text_events task tu n xs) = length xs"
  by (simp add: text_events_def)

lemma working_text_text_events:
  "map working_text (text_events task tu n texts) = map Some texts"
  by (induction texts arbitrary: n) (simp_all add: text_events_def agent_text_status_def)

lemma map_PStr_eq: "map PStr ts = map PStr us \<Longrightarrow> ts = us"
  by (simp add: inj_map_eq_map inj_def)

lemma leading_strings_all:
  "list_all is_str ts \<Longrightarrow> map PStr (leading_strings ts) = ts"
proof (induction ts)
  case Nil
  show ?case by simp
next
  case (Cons t ts)
  then show ?case by (cases t) simp_all
qed

lemma length_leading_strings:
  "list_all is_str ts \<Longrightarrow> length (leading_strings ts) = length ts"
  using leading_strings_all [of ts] by (metis length_map)

text \<open>One element of a content list: skipped, emitted, or rejected.\<close>

lemma content_item_eq:
  "content_item item task tu w =
     (case text_of_item item of
        None \<Rightarrow> (Inr (), w)
      | Some t \<Rightarrow>
          (case t of
             PStr s \<Rightarrow> (Inr (), add_events [agent_text_status task tu TS_working False
                                                 (uuids_drawn w) s] w)
           | _ \<Rightarrow> (Inl ValidationError, w)))"
proof (cases item)
  case (PDict d)
  show ?thesis
  proof (cases "dict_get d ''type'' = PStr ''text'' \<and> truthy (dict_get d ''text'')")
    case True
    then show ?thesis
      using PDict
      by (cases "dict_get d ''text''")
         (simp_all add: content_item_def send_text_str send_text_other)
  next
    case False
    then show ?thesis
      using PDict by (auto simp: content_item_def)
  qed
qed (simp_all add: content_item_def send_text_str)

lemma content_loop_eq:
  "content_loop items task tu w =
     (if list_all is_str (List.map_filter text_of_item items) then Inr ()
      else Inl ValidationError,
      add_events (text_events task tu (uuids_drawn w)
                    (leading_strings (List.map_filter text_of_item items))) w)"
proof (induction items arbitrary: w)
  case Nil
  show ?case by (simp add: text_events_Nil add_events_Nil)
next
  case (Cons item items)
  show ?case
  proof (cases "text_of_item item")
    case None
    then show ?thesis
      by (simp add: content_item_eq Cons.IH)
  next
    case (Some t)
    show ?thesis
    proof (cases t)
      case (PStr s)
      with Some show ?thesis
        by (simp add: content_item_eq Cons.IH text_events_Cons add_events_add
            uuids_add_events)
    qed (use Some in \<open>simp_all add: content_item_eq text_events_Nil add_events_Nil\<close>)
  qed
qed

lemma handle_tool_call_events:
  "handle_tool_call tc task tu w =
     (Inr (), add_events [tool_call_status task tu (uuids_drawn w) tc] w)"
  by (simp add: handle_tool_call_def uuid4_def DataPart_def update_status_def
      enqueue_event_def add_events_def tool_call_status_def)

lemma tool_call_events_Cons:
  "tool_call_events task tu n (tc # tcs) =
     tool_call_status task tu n tc # tool_call_events task tu (Suc n) tcs"
  by (simp add: tool_call_events_def)

lemma length_tool_call_events: "length (tool_call_events task tu n tcs) = length tcs"
  by (simp add: tool_call_events_def)

lemma nth_tool_call_events:
  "i < length tcs \<Longrightarrow>
   tool_call_events task tu n tcs ! i = tool_call_status task tu (n + i) (tcs ! i)"
  by (simp add: tool_call_events_def nth_enumerate_eq)

lemma tool_calls_loop_events:
  "tool_calls_loop tcs task tu w =
     (Inr (), add_events (tool_call_events task tu (uuids_drawn w) tcs) w)"
proof (induction tcs arbitrary: w)
  case Nil
  show ?case by (simp add: tool_call_events_def add_events_Nil)
next
  case (Cons tc tcs)
  show ?case
    by (simp add: handle_tool_call_events Cons.IH tool_call_events_Cons add_events_add
        uuids_add_events)
qed

text \<open>The text step of the assistant-message handler, before the tool calls.\<close>

lemma ai_content_eq:
  "(case ai_content m of
      PStr s \<Rightarrow>
        if s \<noteq> [] then send_text tu TS_working (ai_content m) task False w
        else (Inr (), w)
    | PList items \<Rightarrow> content_loop items task tu w
    | _ \<Rightarrow> (Inr (), w))
   = (if well_formed_texts m then Inr () else Inl ValidationError,
      add_events (text_events task tu (uuids_drawn w)
                    (leading_strings (content_texts (ai_content m)))) w)"
  by (cases "ai_content m")
     (simp_all add: well_formed_texts_def send_text_str content_loop_eq text_events_Nil
        text_events_Cons add_events_Nil)

lemma handle_ai_message_eq:
  "handle_ai_message m task tu w =
     (if well_formed_texts m then Inr () else Inl ValidationError,
      add_events (ai_message_events task tu (uuids_drawn w) m) w)"
proof (cases "well_formed_texts m")
  case False
  then show ?thesis
    by (simp add: handle_ai_message_def Let_def ai_content_eq ai_message_events_def)
next
  case True
  then have count: "length (leading_strings (content_texts (ai_content m)))
      = length (content_texts (ai_content m))"
    by (simp add: well_formed_texts_def length_leading_strings)
  show ?thesis
  proof (cases "ai_tool_calls m = []")
    case no_calls: True
    with True show ?thesis
      by (simp add: handle_ai_message_def Let_def ai_content_eq ai_message_events_def
          tool_call_events_def)
  next
    case False
    with True count show ?thesis
      by (simp add: handle_ai_message_def Let_def ai_content_eq ai_message_events_def
          tool_calls_loop_events add_events_add uuids_add_events length_text_events)
  qed
qed

text \<open>The parser with fallback of the tool-result handler and of the artifact builder.\<close>

lemma tool_result_part_eq:
  "(case (case json_loads decode raw of
            Inl e \<Rightarrow> Inl e
          | Inr v \<Rightarrow> DataPart v) of
      Inr part \<Rightarrow> Inr part
    | Inl e \<Rightarrow> if e = JSONDecodeError \<or> e = TypeError then TextPart raw else Inl e)
   = parsed_part decode raw"
proof (cases raw)
  case (PStr str)
  show ?thesis
  proof (cases "decode str")
    case (Inl e)
    with PStr show ?thesis
      by (simp add: json_loads_def parsed_part_def TextPart_def)
  next
    case (Inr v)
    with PStr show ?thesis
      by (cases v) (simp_all add: json_loads_def parsed_part_def DataPart_def)
  qed
qed (simp_all add: json_loads_def parsed_part_def TextPart_def)

lemma handle_tool_message_eq:
  "handle_tool_message decode m task tu w =
     (case parsed_part decode (tm_content m) of
        Inl e \<Rightarrow> (Inl e, w)
      | Inr p \<Rightarrow> (Inr (), add_events [tool_result_status task tu (uuids_drawn w) m p] w))"
  by (cases "parsed_part decode (tm_content m)")
     (simp_all add: handle_tool_message_def Let_def tool_result_part_eq uuid4_def
        update_status_def enqueue_event_def add_events_def tool_result_status_def)

lemma artifact_eq:
  "(case (case json_loads decode raw of
            Inl e \<Rightarrow> (Inl e, w)
          | Inr data \<Rightarrow> new_data_artifact name description data w) of
      (Inr artifact, w1) \<Rightarrow> (Inr artifact, w1)
    | (Inl e, w1) \<Rightarrow>
        if e = JSONDecodeError \<or> e = TypeError
        then new_text_artifact name description raw w1
        else (Inl e, w1))
   = (case parsed_part decode raw of
        Inl e \<Rightarrow> (Inl e, w)
      | Inr p \<Rightarrow>
          (Inr \<lparr>a_artifactId = Uuid4 (uuids_drawn w), a_name = name,
                a_description = description, a_parts = [p]\<rparr>,
           w\<lparr>uuids_drawn := Suc (uuids_drawn w)\<rparr>))"
proof (cases raw)
  case (PStr str)
  show ?thesis
  proof (cases "decode str")
    case (Inl e)
    with PStr show ?thesis
      by (simp add: json_loads_def parsed_part_def new_text_artifact_def TextPart_def uuid4_def)
  next
    case (Inr v)
    with PStr show ?thesis
      by (cases v)
         (simp_all add: json_loads_def parsed_part_def new_data_artifact_def DataPart_def
            uuid4_def)
  qed
qed (simp_all add: json_loads_def parsed_part_def new_text_artifact_def TextPart_def)

lemma handle_structured_response_artifact_eq:
  "handle_structured_response_artifact decode sr task w =
     (case parsed_part decode (artifact_output sr) of
        Inl e \<Rightarrow> (Inl e, w)
      | Inr p \<Rightarrow> (Inr (), add_events [artifact_event sr task (uuids_drawn w) p] w))"
  by (cases "parsed_part decode (artifact_output sr)")
     (simp_all add: handle_structured_response_artifact_def artifact_eq enqueue_event_def
        add_events_def artifact_event_def)

lemma handle_structured_response_eq:
  "handle_structured_response decode g config task tu w =
     (case values_get (snapshot_values (get_state g config)) ''structured_response'' of
        Plain v \<Rightarrow> if truthy v then (Inl AttributeError, w) else (Inl no_structured_response, w)
      | Structured sr \<Rightarrow>
          if task_state sr \<noteq> TS_completed
          then (Inr (), add_events [agent_text_status task tu (task_state sr) True (uuids_drawn w)
                                     (task_state_message sr)] w)
          else
            (case parsed_part decode (artifact_output sr) of
               Inl e \<Rightarrow> (Inl e, w)
             | Inr p \<Rightarrow>
                 (Inr (), add_events [artifact_event sr task (uuids_drawn w) p,
                                      agent_text_status task tu TS_completed True
                                        (Suc (uuids_drawn w)) (task_state_message sr)] w)))"
proof (cases "values_get (snapshot_values (get_state g config)) ''structured_response''")
  case (Plain v)
  then show ?thesis
    by (simp add: handle_structured_response_def Let_def no_structured_response_def)
next
  case (Structured sr)
  then show ?thesis
    by (cases "parsed_part decode (artifact_output sr)")
       (simp_all add: handle_structured_response_def Let_def TaskState_def send_text_str
          handle_structured_response_artifact_eq add_events_add uuids_add_events)
qed

section \<open>The streaming loop\<close>

lemma stream_step_eq:
  "stream_step decode task tu event ids w =
     (if event = [] then (Inl IndexError, w)
      else if message_id (last event) \<in> ids then (Inr ids, w)
      else (case message_result decode (last event) of
              Inl e \<Rightarrow> Inl e
            | Inr u \<Rightarrow> Inr (insert (message_id (last event)) ids),
            add_events (message_events decode task tu (uuids_drawn w) (last event))
              (logger_info (last event) w)))"
proof (cases "last event")
  case (AIMessage m)
  then show ?thesis
    by (simp add: stream_step_def Let_def handle_ai_message_eq logger_info_def)
next
  case (ToolMessage m)
  then show ?thesis
    by (cases "parsed_part decode (tm_content m)")
       (simp_all add: stream_step_def Let_def handle_tool_message_eq logger_info_def
          add_events_Nil)
next
  case (OtherMessage i)
  then show ?thesis
    by (simp add: stream_step_def Let_def add_events_Nil logger_info_def)
qed

lemma working_text_events: "list_all is_working_status (text_events task tu n texts)"
  by (simp add: text_events_def list_all_iff agent_text_status_def split_beta)

lemma working_tool_call_events: "list_all is_working_status (tool_call_events task tu n tcs)"
  by (simp add: tool_call_events_def list_all_iff tool_call_status_def split_beta)

lemma working_message_events: "list_all is_working_status (message_events decode task tu n m)"
proof (cases m)
  case (AIMessage a)
  then show ?thesis
    by (simp add: ai_message_events_def working_text_events working_tool_call_events)
next
  case (ToolMessage t)
  then show ?thesis
    by (cases "parsed_part decode (tm_content t)") (simp_all add: tool_result_status_def)
next
  case (OtherMessage i)
  then show ?thesis by simp
qed

lemma working_not_terminal:
  "is_working_status e \<Longrightarrow> \<not> is_final_status e \<and> \<not> is_artifact e"
  by (cases e) simp_all

text \<open>
  One turn of the loop either ends the loop with an exception or goes on with a set of
  seen ids; in both cases it has added working status events only, and at most the
  tick's last message to the log.
\<close>

lemma stream_step_cases:
  assumes "stream_step decode task tu ev ids w = (r, w1)"
  obtains
    (raised) e where "r = Inl e"
      "\<exists>new. queue w1 = queue w @ new \<and> list_all is_working_status new"
      "log w1 = log w \<or> (log w1 = log w @ [last ev] \<and> message_id (last ev) \<notin> ids)"
  | (skipped) "r = Inr ids" "w1 = w" "ev \<noteq> []" "message_id (last ev) \<in> ids"
  | (dispatched) "r = Inr (insert (message_id (last ev)) ids)" "ev \<noteq> []"
      "message_id (last ev) \<notin> ids"
      "\<exists>new. queue w1 = queue w @ new \<and> list_all is_working_status new"
      "log w1 = log w @ [last ev]"
proof (cases "ev = []")
  case True
  with assms have "r = Inl IndexError" "w1 = w"
    by (simp_all add: stream_step_eq)
  then show ?thesis
    using raised [of IndexError] by simp
next
  case False
  show ?thesis
  proof (cases "message_id (last ev) \<in> ids")
    case True
    with False assms show ?thesis
      using skipped by (simp add: stream_step_eq)
  next
    case notin: False
    let ?new = "message_events decode task tu (uuids_drawn w) (last ev)"
    from False notin assms
    have w1: "w1 = add_events ?new (logger_info (last ev) w)"
      and r: "r = (case message_result decode (last ev) of
                     Inl e \<Rightarrow> Inl e
                   | Inr u \<Rightarrow> Inr (insert (message_id (last ev)) ids))"
      by (simp_all add: stream_step_eq)
    have queue: "\<exists>new. queue w1 = queue w @ new \<and> list_all is_working_status new"
      using working_message_events [of decode task tu "uuids_drawn w" "last ev"]
      by (auto simp: w1 queue_add_events logger_info_def)
    have log: "log w1 = log w @ [last ev]"
      by (simp add: w1 log_add_events logger_info_def)
    show ?thesis
    proof (cases "message_result decode (last ev)")
      case (Inl e)
      with r have "r = Inl e" by simp
      then show ?thesis
        using raised [of e] queue log notin by simp
    next
      case (Inr u)
      with r have "r = Inr (insert (message_id (last ev)) ids)" by simp
      then show ?thesis
        using dispatched False notin queue log by simp
    qed
  qed
qed

lemma stream_loop_queue:
  "stream_loop decode task tu evs ids w = (r, w') \<Longrightarrow>
   \<exists>new. queue w' = queue w @ new \<and> list_all is_working_status new"
proof (induction evs arbitrary: ids w)
  case Nil
  then show ?case by simp
next
  case (Cons ev evs)
  obtain r1 w1 where step: "stream_step decode task tu ev ids w = (r1, w1)"
    by (cases "stream_step decode task tu ev ids w")
  from step show ?case
  proof (cases rule: stream_step_cases)
    case (raised e)
    with step Cons.prems have "w' = w1" by simp
    with raised(2) show ?thesis by simp
  next
    case skipped
    with step Cons.prems have "stream_loop decode task tu evs ids w = (r, w')" by simp
    from Cons.IH [OF this] show ?thesis .
  next
    case dispatched
    with step Cons.prems
    have "stream_loop decode task tu evs (insert (message_id (last ev)) ids) w1 = (r, w')"
      by simp
    from Cons.IH [OF this] obtain new
      where new: "queue w' = queue w1 @ new" "list_all is_working_status new"
      by blast
    from dispatched(4) obtain first
      where first: "queue w1 = queue w @ first" "list_all is_working_status first"
      by blast
    have "queue w' = queue w @ (first @ new)"
      using new(1) first(1) by simp
    moreover have "list_all is_working_status (first @ new)"
      using new(2) first(2) by simp
    ultimately show ?thesis by blast
  qed
qed

lemma stream_loop_log:
  "stream_loop decode task tu evs ids w = (r, w') \<Longrightarrow>
   \<exists>new. log w' = log w @ new \<and> distinct (map message_id new)
        \<and> set (map message_id new) \<inter> ids = {}"
proof (induction evs arbitrary: ids w)
  case Nil
  then show ?case by simp
next
  case (Cons ev evs)
  obtain r1 w1 where step: "stream_step decode task tu ev ids w = (r1, w1)"
    by (cases "stream_step decode task tu ev ids w")
  from step show ?case
  proof (cases rule: stream_step_cases)
    case (raised e)
    with step Cons.prems have w': "w' = w1" by simp
    from raised(3) show ?thesis
    proof
      assume "log w1 = log w"
      with w' show ?thesis by simp
    next
      assume "log w1 = log w @ [last ev] \<and> message_id (last ev) \<notin> ids"
      with w' have "log w' = log w @ [last ev]" "distinct (map message_id [last ev])"
        "set (map message_id [last ev]) \<inter> ids = {}"
        by simp_all
      then show ?thesis by blast
    qed
  next
    case skipped
    with step Cons.prems have "stream_loop decode task tu evs ids w = (r, w')" by simp
    from Cons.IH [OF this] show ?thesis .
  next
    case dispatched
    with step Cons.prems
    have "stream_loop decode task tu evs (insert (message_id (last ev)) ids) w1 = (r, w')"
      by simp
    from Cons.IH [OF this] obtain new
      where new: "log w' = log w1 @ new" "distinct (map message_id new)"
        "set (map message_id new) \<inter> insert (message_id (last ev)) ids = {}"
      by blast
    from new(1) dispatched(5) have "log w' = log w @ (last ev # new)"
      by simp
    moreover have "distinct (map message_id (last ev # new))"
      using new(2,3) by auto
    moreover have "set (map message_id (last ev # new)) \<inter> ids = {}"
      using new(3) dispatched(3) by auto
    ultimately show ?thesis by blast
  qed
qed

lemma stream_loop_drop:
  "e \<noteq> [] \<Longrightarrow>
   message_id (last e) \<in> ids
     \<or> (\<exists>p \<in> set pre. p \<noteq> [] \<and> message_id (last p) = message_id (last e)) \<Longrightarrow>
   stream_loop decode task tu (pre @ e # post) ids w
     = stream_loop decode task tu (pre @ post) ids w"
proof (induction pre arbitrary: ids w)
  case Nil
  then show ?case by (simp add: stream_step_eq)
next
  case (Cons p pre)
  obtain r1 w1 where step: "stream_step decode task tu p ids w = (r1, w1)"
    by (cases "stream_step decode task tu p ids w")
  from step show ?case
  proof (cases rule: stream_step_cases)
    case (raised x)
    with step show ?thesis by simp
  next
    case skipped
    have seen: "message_id (last e) \<in> ids
        \<or> (\<exists>q \<in> set pre. q \<noteq> [] \<and> message_id (last q) = message_id (last e))"
      using Cons.prems(2) skipped(4) by auto
    from Cons.IH [OF Cons.prems(1) seen, of w] step skipped show ?thesis
      by simp
  next
    case dispatched
    have seen: "message_id (last e) \<in> insert (message_id (last p)) ids
        \<or> (\<exists>q \<in> set pre. q \<noteq> [] \<and> message_id (last q) = message_id (last e))"
      using Cons.prems(2) by auto
    from Cons.IH [OF Cons.prems(1) seen, of w1] step dispatched show ?thesis
      by simp
  qed
qed

section \<open>The driver\<close>

lemma resolve_task_queue:
  "resolve_task ctx request w = (Inr task, w1) \<Longrightarrow>
   queue w1 = queue w @ (case rc_current_task ctx of None \<Rightarrow> [TaskEvent task] | Some t \<Rightarrow> [])
   \<and> log w1 = log w"
  by (auto simp: resolve_task_def new_task_def uuid4_def enqueue_event_def
      split: option.splits prod.splits sum.splits if_splits)

lemma resolve_task_raises:
  "resolve_task ctx request w = (Inl e, w1) \<Longrightarrow> w1 = w"
  by (auto simp: resolve_task_def new_task_def uuid4_def enqueue_event_def
      split: option.splits prod.splits sum.splits if_splits)

lemma execute_eq:
  "rc_message ctx = Some request \<Longrightarrow> resolve_task ctx request w = (Inr task, w1) \<Longrightarrow>
   execute decode g ctx w =
     (case stream_loop decode task (TaskUpdater (t_id task) (t_contextId task))
             (astream g (graph_inputs ctx) (graph_config task)) {} w1 of
        (Inl e, w2) \<Rightarrow> (Inl e, w2)
      | (Inr ids, w2) \<Rightarrow>
          handle_structured_response decode g (graph_config task) task
            (TaskUpdater (t_id task) (t_contextId task)) w2)"
  unfolding graph_inputs_def graph_config_def
  by (simp add: execute_def Let_def)

text \<open>
  An execution whose task is resolved and whose streaming loop returns reaches the
  finalizer; up to there the queue has received the new task, if one was made, and
  working status events.
\<close>

lemma execute_reaches_finalizer:
  assumes "rc_message ctx = Some request"
    and "resolve_task ctx request w = (Inr task, w1)"
    and "stream_loop decode task (TaskUpdater (t_id task) (t_contextId task))
           (astream g (graph_inputs ctx) (graph_config task)) {} w1 = (Inr ids, w2)"
  shows "\<exists>pre.
           execute decode g ctx w =
             handle_structured_response decode g (graph_config task) task
               (TaskUpdater (t_id task) (t_contextId task)) w2
         \<and> queue w2 = queue w @ pre
         \<and> (\<forall>e \<in> set pre. \<not> is_final_status e \<and> \<not> is_artifact e)"
proof -
  let ?tu = "TaskUpdater (t_id task) (t_contextId task)"
  from stream_loop_queue [OF assms(3)] obtain new
    where new: "queue w2 = queue w1 @ new" "list_all is_working_status new"
    by blast
  let ?first = "case rc_current_task ctx of None \<Rightarrow> [TaskEvent task] | Some t \<Rightarrow> []"
  have w1: "queue w1 = queue w @ ?first"
    using resolve_task_queue [OF assms(2)] by simp
  have "queue w2 = queue w @ (?first @ new)"
    using new(1) w1 by simp
  moreover have "\<forall>e \<in> set (?first @ new). \<not> is_final_status e \<and> \<not> is_artifact e"
    using new(2) working_not_terminal
    by (auto simp: list_all_iff split: option.splits)
  moreover have "execute decode g ctx w =
      handle_structured_response decode g (graph_config task) task ?tu w2"
    using execute_eq [OF assms(1,2)] assms(3) by simp
  ultimately show ?thesis
    by blast
qed

lemma handle_structured_response_log:
  "log (snd (handle_structured_response decode g config task tu w)) = log w"
  by (simp add: handle_structured_response_eq log_add_events
      split: state_value.splits sum.splits)

lemma execute_log:
  "\<exists>new. log (snd (execute decode g ctx w)) = log w @ new \<and> distinct (map message_id new)"
proof (cases "rc_message ctx")
  case None
  then show ?thesis by (simp add: execute_def)
next
  case (Some request)
  obtain rt w1 where resolve: "resolve_task ctx request w = (rt, w1)"
    by (cases "resolve_task ctx request w")
  show ?thesis
  proof (cases rt)
    case (Inl e)
    with resolve resolve_task_raises have "w1 = w" by blast
    with Inl resolve Some show ?thesis
      by (simp add: execute_def)
  next
    case (Inr task)
    let ?tu = "TaskUpdater (t_id task) (t_contextId task)"
    obtain r w2 where loop:
      "stream_loop decode task ?tu (astream g (graph_inputs ctx) (graph_config task)) {} w1
         = (r, w2)"
      by (cases "stream_loop decode task ?tu
                   (astream g (graph_inputs ctx) (graph_config task)) {} w1")
    from stream_loop_log [OF loop] obtain new
      where new: "log w2 = log w1 @ new" "distinct (map message_id new)"
      by blast
    have "log w1 = log w"
      using resolve_task_queue [OF resolve [unfolded Inr]] by simp
    with new(1) have w2: "log w2 = log w @ new" by simp
    have "log (snd (execute decode g ctx w)) = log w2"
      using execute_eq [OF Some resolve [unfolded Inr]] loop
      by (cases r) (simp_all add: handle_structured_response_log)
    with w2 new(2) show ?thesis by auto
  qed
qed

section \<open>Facts of the sample run\<close>

lemma example_resolve:
  "resolve_task example_ctx example_request example_world
     = (Inr example_new_task, example_started)"
  by (simp add: resolve_task_def new_task_def uuid4_def enqueue_event_def example_ctx_def
      example_request_def example_world_def example_new_task_def example_started_def)

lemma example_message: "rc_message example_ctx = Some example_request"
  by (simp add: example_ctx_def)

lemma example_values_get:
  "values_get (snapshot_values (get_state (example_graph (example_values v)) config))
     ''structured_response'' = v"
  by (simp add: values_get_def example_graph_def example_values_def)

lemma example_stream:
  "stream_loop example_decode example_new_task
     (TaskUpdater (t_id example_new_task) (t_contextId example_new_task))
     (astream (example_graph vs) (graph_inputs example_ctx) (graph_config example_new_task))
     {} example_started
   = (Inr example_seen, example_streamed)"
  by (simp add: example_graph_def example_ticks_def example_last_tick_def stream_step_eq
      example_human_def example_ai_def example_tool_def example_answer_def
      logger_info_def add_events_def example_started_def ai_message_events_def
      well_formed_texts_def text_events_def tool_call_events_def dict_get_def
      parsed_part_def example_decode_def example_new_task_def example_seen_def
      example_streamed_def example_new_updater_def eval_nat_numeral insert_commute)

lemma filter_none: "\<forall>e \<in> set pre. \<not> P e \<Longrightarrow> filter P (pre @ xs) = filter P xs"
  by (simp add: filter_empty_conv)

section \<open>De-duplication of the stream\<close>

text \<open>
  C1. Let the stream of an execution deliver, after the ticks \<open>pre\<close>, a tick \<open>e\<close> whose
  last message has the id of the last message of an earlier tick \<open>p\<close>. Then the
  streaming loop, and with it the whole execution, is that of the stream without \<open>e\<close>:
  same outcome, same queue, same log, so the re-delivery adds no sink event. A tick
  whose last message has an id of the seen set leaves the set and the world as they
  are. A message is written to the log exactly when it is marked as seen and handed to
  the dispatch, and the ids of the messages logged by one execution are pairwise
  distinct: no id is dispatched twice.
\<close>

theorem execute_skips_seen_ids:
  assumes "rc_message ctx = Some request"
    and "resolve_task ctx request w = (Inr task, w1)"
    and "astream g (graph_inputs ctx) (graph_config task) = pre @ e # post"
    and "p \<in> set pre" and "p \<noteq> []" and "e \<noteq> []"
    and "message_id (last p) = message_id (last e)"
  shows "stream_loop decode task (TaskUpdater (t_id task) (t_contextId task))
           (pre @ e # post) {} w1
           = stream_loop decode task (TaskUpdater (t_id task) (t_contextId task))
               (pre @ post) {} w1
       \<and> execute decode g ctx w
           = execute decode (g\<lparr>astream := \<lambda>inputs config. pre @ post\<rparr>) ctx w
       \<and> (\<forall>ids w2. message_id (last e) \<in> ids \<longrightarrow>
             stream_step decode task (TaskUpdater (t_id task) (t_contextId task)) e ids w2
               = (Inr ids, w2))
       \<and> (\<exists>new. log (snd (execute decode g ctx w)) = log w @ new
                \<and> distinct (map message_id new))"
proof -
  let ?g = "g\<lparr>astream := \<lambda>inputs config. pre @ post\<rparr>"
  let ?tu = "TaskUpdater (t_id task) (t_contextId task)"
  have seen: "message_id (last e) \<in> {}
      \<or> (\<exists>q \<in> set pre. q \<noteq> [] \<and> message_id (last q) = message_id (last e))"
    using assms(4,5,7) by blast
  have drop: "stream_loop decode task ?tu (pre @ e # post) {} w1
      = stream_loop decode task ?tu (pre @ post) {} w1"
    by (rule stream_loop_drop [OF assms(6) seen])
  obtain r w2 where loop: "stream_loop decode task ?tu (pre @ post) {} w1 = (r, w2)"
    by (cases "stream_loop decode task ?tu (pre @ post) {} w1")
  have finalizer: "handle_structured_response decode ?g (graph_config task) task ?tu w2
      = handle_structured_response decode g (graph_config task) task ?tu w2"
    by (simp add: handle_structured_response_eq)
  have left: "execute decode g ctx w =
      (case r of Inl x \<Rightarrow> (Inl x, w2)
       | Inr ids \<Rightarrow> handle_structured_response decode g (graph_config task) task ?tu w2)"
    using execute_eq [OF assms(1,2), of decode g] assms(3) drop loop
    by (simp split: sum.splits)
  have right: "execute decode ?g ctx w =
      (case r of Inl x \<Rightarrow> (Inl x, w2)
       | Inr ids \<Rightarrow> handle_structured_response decode ?g (graph_config task) task ?tu w2)"
    using execute_eq [OF assms(1,2), of decode ?g] loop
    by (simp split: sum.splits)
  have same: "execute decode g ctx w = execute decode ?g ctx w"
    using left right finalizer by (cases r) simp_all
  have skip: "\<forall>ids w2. message_id (last e) \<in> ids \<longrightarrow>
      stream_step decode task ?tu e ids w2 = (Inr ids, w2)"
    using assms(6) by (simp add: stream_step_eq)
  show ?thesis
    using drop same skip execute_log by blast
qed

theorem execute_skips_seen_ids_witness:
  "rc_message example_ctx = Some example_request
   \<and> resolve_task example_ctx example_request example_world
       = (Inr example_new_task, example_started)
   \<and> astream (example_graph []) (graph_inputs example_ctx) (graph_config example_new_task)
       = (example_ticks @ [example_last_tick]) @ example_last_tick # []
   \<and> example_last_tick \<in> set (example_ticks @ [example_last_tick])
   \<and> example_last_tick \<noteq> []
   \<and> execute example_decode (example_graph []) example_ctx example_world
       = execute example_decode
           ((example_graph [])\<lparr>astream := \<lambda>inputs config. (example_ticks @ [example_last_tick]) @ []\<rparr>)
           example_ctx example_world
   \<and> (\<exists>new. log (snd (execute example_decode (example_graph []) example_ctx example_world))
               = log example_world @ new
            \<and> distinct (map message_id new))"
proof -
  have stream: "astream (example_graph []) (graph_inputs example_ctx) (graph_config example_new_task)
      = (example_ticks @ [example_last_tick]) @ example_last_tick # []"
    by (simp add: example_graph_def)
  have earlier: "example_last_tick \<in> set (example_ticks @ [example_last_tick])"
    by simp
  have nonempty: "example_last_tick \<noteq> []"
    by (simp add: example_last_tick_def)
  show ?thesis
    using execute_skips_seen_ids
        [OF example_message example_resolve stream earlier nonempty nonempty refl,
         of example_decode]
      example_message example_resolve stream earlier nonempty
    by blast
qed

section \<open>Tool results\<close>

text \<open>
  What the tool-result handler does, case by case. A content that is a text decoding to
  a dictionary gives one working status event with the dictionary as structured data; a
  text whose decoding raises \<^verbatim>\<open>JSONDecodeError\<close> gives one with the text itself. A
  text decoding to any other value, and a content that is no text, make the handler
  raise \<^verbatim>\<open>ValidationError\<close> with nothing queued, and an exception of the decoder
  that the handler does not catch leaves it as it is.
\<close>

lemma handle_tool_message_object:
  "tm_content m = PStr s \<Longrightarrow> decode s = Inr (PDict d) \<Longrightarrow>
   handle_tool_message decode m task tu w =
     (Inr (), add_events [tool_result_status task tu (uuids_drawn w) m (PartData d)] w)"
  by (simp add: handle_tool_message_eq parsed_part_def)

lemma handle_tool_message_undecodable:
  "tm_content m = PStr s \<Longrightarrow> decode s = Inl JSONDecodeError \<Longrightarrow>
   handle_tool_message decode m task tu w =
     (Inr (), add_events [tool_result_status task tu (uuids_drawn w) m (PartText s)] w)"
  by (simp add: handle_tool_message_eq parsed_part_def)

lemma handle_tool_message_not_object:
  "tm_content m = PStr s \<Longrightarrow> decode s = Inr v \<Longrightarrow> \<forall>d. v \<noteq> PDict d \<Longrightarrow>
   handle_tool_message decode m task tu w = (Inl ValidationError, w)"
  by (cases v) (simp_all add: handle_tool_message_eq parsed_part_def)

lemma handle_tool_message_not_text:
  "\<not> is_str (tm_content m) \<Longrightarrow>
   handle_tool_message decode m task tu w = (Inl ValidationError, w)"
  by (cases "tm_content m") (simp_all add: handle_tool_message_eq parsed_part_def)

lemma handle_tool_message_uncaught:
  "tm_content m = PStr s \<Longrightarrow> decode s = Inl e \<Longrightarrow> e \<noteq> JSONDecodeError \<Longrightarrow> e \<noteq> TypeError \<Longrightarrow>
   handle_tool_message decode m task tu w = (Inl e, w)"
  by (simp add: handle_tool_message_eq parsed_part_def)

text \<open>
  C2. The claim fails on the code. For the tool results \<^verbatim>\<open>42\<close> and \<^verbatim>\<open>[1, 2]\<close>, which
  are JSON but no JSON objects, \<^verbatim>\<open>json.loads\<close> succeeds and \<^verbatim>\<open>DataPart(data=...)\<close>
  rejects the value; for a content that is a list, the fallback's
  \<^verbatim>\<open>TextPart(text=...)\<close> rejects it. The \<^verbatim>\<open>ValidationError\<close> is not caught by
  \<^verbatim>\<open>except (json.JSONDecodeError, TypeError)\<close>: the handler raises and no event is
  emitted, where the claim promises one event and no exception.
\<close>

theorem handle_tool_message_rejects_non_object:
  "example_decode ''42'' = Inr (PInt 42)
   \<and> handle_tool_message example_decode example_tool_number example_task example_updater
       example_world = (Inl ValidationError, example_world)
   \<and> example_decode ''[1, 2]'' = Inr (PList [PInt 1, PInt 2])
   \<and> handle_tool_message example_decode example_tool_array example_task example_updater
       example_world = (Inl ValidationError, example_world)
   \<and> tm_content example_tool_list = PList [PStr ''sunny'']
   \<and> handle_tool_message example_decode example_tool_list example_task example_updater
       example_world = (Inl ValidationError, example_world)
   \<and> queue example_world = []"
  by (simp add: handle_tool_message_eq parsed_part_def example_decode_def
      example_tool_number_def example_tool_array_def example_tool_list_def example_world_def)

section \<open>Assistant messages\<close>

lemma well_formed_not_list:
  "\<forall>items. ai_content m \<noteq> PList items \<Longrightarrow> well_formed_texts m"
  by (cases "ai_content m") (simp_all add: well_formed_texts_def)

lemma example_odd_raises:
  "handle_ai_message example_odd example_task example_updater example_world
     = (Inl ValidationError, example_world)"
  by (simp add: handle_ai_message_eq well_formed_texts_def ai_message_events_def example_odd_def
      dict_get_def text_events_Nil add_events_Nil)

text \<open>
  C7, as stated, fails on the code: the content of \<open>example_odd\<close> is a sequence whose
  first element is a fragment of kind "text" with the text field 5 and whose second
  element is the plain string \<^verbatim>\<open>after\<close>. The fragment passes the guard of the
  handler, which tests the field for truthiness, and the protocol message rejects the
  number: the handler raises, and no status event is emitted for the plain string.
\<close>

theorem handle_ai_message_texts_counterexample:
  "ai_content example_odd =
     PList [PDict [(''type'', PStr ''text''), (''text'', PInt 5)], PStr ''after'']
   \<and> handle_ai_message example_odd example_task example_updater example_world
       = (Inl ValidationError, example_world)
   \<and> queue example_world = []"
  by (simp add: example_odd_raises) (simp add: example_odd_def example_world_def)

text \<open>
  C7, amended. Let every text of an assistant message be a string, that is, let every
  fragment of kind "text" with a truthy text field carry a string there. Then the
  handler returns without raising. The queue grows by the working status events of the
  message's texts, one per text and in their order, followed by events that are no text
  events, and by nothing else when the message has no tool calls. The texts are those of
  \<open>content_texts\<close>: the content itself when it is a non-empty plain string; when it is
  a sequence, every plain-string element and the text field of every structured fragment
  whose kind marker is "text" and whose text field is non-empty, all other elements
  being skipped. A message with empty or absent content and no tool calls adds no event.
\<close>

theorem handle_ai_message_texts:
  assumes "well_formed_texts m"
  shows "\<exists>w' texts rest.
     map PStr texts = content_texts (ai_content m)
   \<and> handle_ai_message m task tu w = (Inr (), w')
   \<and> queue w' = queue w @ text_events task tu (uuids_drawn w) texts @ rest
   \<and> map working_text (text_events task tu (uuids_drawn w) texts) = map Some texts
   \<and> (\<forall>e \<in> set rest. working_text e = None)
   \<and> (ai_tool_calls m = [] \<longrightarrow> rest = [])
   \<and> (\<forall>s. ai_content m = PStr s \<and> s \<noteq> [] \<longrightarrow>
         text_events task tu (uuids_drawn w) texts
           = [agent_text_status task tu TS_working False (uuids_drawn w) s])
   \<and> (\<forall>items. ai_content m = PList items \<longrightarrow>
         content_texts (ai_content m) = List.map_filter text_of_item items)
   \<and> (\<not> truthy (ai_content m) \<and> ai_tool_calls m = [] \<longrightarrow> queue w' = queue w)"
proof -
  let ?texts = "leading_strings (content_texts (ai_content m))"
  let ?T = "text_events task tu (uuids_drawn w) ?texts"
  let ?rest = "tool_call_events task tu (uuids_drawn w + length (content_texts (ai_content m)))
                 (ai_tool_calls m)"
  let ?w' = "add_events (ai_message_events task tu (uuids_drawn w) m) w"
  have strings: "map PStr ?texts = content_texts (ai_content m)"
    using assms by (simp add: well_formed_texts_def leading_strings_all)
  have run: "handle_ai_message m task tu w = (Inr (), ?w')"
    using assms by (simp add: handle_ai_message_eq)
  have queue: "queue ?w' = queue w @ ?T @ ?rest"
    using assms by (simp add: queue_add_events ai_message_events_def)
  have texts: "map working_text ?T = map Some ?texts"
    by (rule working_text_text_events)
  have rest: "\<forall>e \<in> set ?rest. working_text e = None"
    by (auto simp: tool_call_events_def tool_call_status_def)
  have no_calls: "ai_tool_calls m = [] \<longrightarrow> ?rest = []"
    by (simp add: tool_call_events_def)
  have single: "\<forall>s. ai_content m = PStr s \<and> s \<noteq> [] \<longrightarrow>
      ?T = [agent_text_status task tu TS_working False (uuids_drawn w) s]"
    by (simp add: text_events_Cons text_events_Nil)
  have sequence: "\<forall>items. ai_content m = PList items \<longrightarrow>
      content_texts (ai_content m) = List.map_filter text_of_item items"
    by simp
  have falsy: "\<not> truthy (ai_content m) \<longrightarrow> ?texts = []"
    by (cases "ai_content m") simp_all
  have silent: "\<not> truthy (ai_content m) \<and> ai_tool_calls m = [] \<longrightarrow> queue ?w' = queue w"
    using falsy by (simp add: queue text_events_Nil tool_call_events_def)
  show ?thesis
    using strings run queue texts rest no_calls single sequence silent by blast
qed

theorem handle_ai_message_texts_witness:
  "well_formed_texts example_silent \<and> well_formed_texts example_answer
   \<and> well_formed_texts example_ai
   \<and> \<not> truthy (ai_content example_silent) \<and> ai_tool_calls example_silent = []
   \<and> ai_content example_answer = PStr ''Sunny.''
   \<and> (\<exists>w'. handle_ai_message example_silent example_task example_updater example_world
              = (Inr (), w')
          \<and> queue w' = queue example_world)
   \<and> (\<exists>w'. handle_ai_message example_answer example_task example_updater example_world
              = (Inr (), w')
          \<and> queue w' = queue example_world @
              [agent_text_status example_task example_updater TS_working False
                 (uuids_drawn example_world) ''Sunny.''])
   \<and> (\<exists>w' rest. handle_ai_message example_ai example_task example_updater example_world
              = (Inr (), w')
          \<and> queue w' = queue example_world @
              text_events example_task example_updater (uuids_drawn example_world)
                [''Let me look.'', ''Calling a tool.''] @ rest
          \<and> (\<forall>e \<in> set rest. working_text e = None))"
proof -
  have silent: "ai_content example_silent = PStr [] \<and> \<not> truthy (ai_content example_silent)
      \<and> ai_tool_calls example_silent = []"
    by (simp add: example_silent_def)
  have answer: "ai_content example_answer = PStr ''Sunny.'' \<and> ai_tool_calls example_answer = []"
    by (simp add: example_answer_def)
  have texts: "content_texts (ai_content example_ai)
      = [PStr ''Let me look.'', PStr ''Calling a tool.'']"
    by (simp add: example_ai_def dict_get_def)
  have wf_silent: "well_formed_texts example_silent"
    by (simp add: well_formed_texts_def example_silent_def)
  have wf_answer: "well_formed_texts example_answer"
    by (simp add: well_formed_texts_def example_answer_def)
  have wf_ai: "well_formed_texts example_ai"
    by (simp add: well_formed_texts_def texts)
  have first: "\<exists>w'. handle_ai_message example_silent example_task example_updater example_world
        = (Inr (), w') \<and> queue w' = queue example_world"
    using handle_ai_message_texts
        [OF wf_silent, of example_task example_updater example_world] silent
    by auto
  have second: "\<exists>w'. handle_ai_message example_answer example_task example_updater example_world
        = (Inr (), w')
      \<and> queue w' = queue example_world @
          [agent_text_status example_task example_updater TS_working False
             (uuids_drawn example_world) ''Sunny.'']"
    using handle_ai_message_texts
        [OF wf_answer, of example_task example_updater example_world] answer
    by auto
  from handle_ai_message_texts [OF wf_ai, of example_task example_updater example_world]
  obtain w' ts rest where strings: "map PStr ts = content_texts (ai_content example_ai)"
    and run: "handle_ai_message example_ai example_task example_updater example_world
        = (Inr (), w')"
    and queue: "queue w' = queue example_world @
        text_events example_task example_updater (uuids_drawn example_world) ts @ rest"
    and rest: "\<forall>e \<in> set rest. working_text e = None"
    by blast
  from strings texts have "map PStr ts = map PStr [''Let me look.'', ''Calling a tool.'']"
    by simp
  then have "ts = [''Let me look.'', ''Calling a tool.'']"
    by (rule map_PStr_eq)
  with run queue rest
  have third: "\<exists>w' rest. handle_ai_message example_ai example_task example_updater example_world
        = (Inr (), w')
      \<and> queue w' = queue example_world @
          text_events example_task example_updater (uuids_drawn example_world)
            [''Let me look.'', ''Calling a tool.''] @ rest
      \<and> (\<forall>e \<in> set rest. working_text e = None)"
    by blast
  show ?thesis
    using wf_silent wf_answer wf_ai silent answer first second third by blast
qed

section \<open>Tool calls\<close>

lemma example_odd_call_raises:
  "handle_ai_message example_odd_call example_task example_updater example_world
     = (Inl ValidationError, example_world)"
  by (simp add: handle_ai_message_eq well_formed_texts_def ai_message_events_def
      example_odd_call_def dict_get_def text_events_Nil add_events_Nil)

text \<open>
  C8, as stated, fails on the code: \<open>example_odd_call\<close> carries one tool call, and its
  content holds a fragment of kind "text" with the text field 5. The handler raises
  while it emits the texts, before the loop over the tool calls: the call is not
  forwarded and no event is emitted for it.
\<close>

theorem handle_ai_message_tool_calls_counterexample:
  "ai_tool_calls example_odd_call = [example_call]
   \<and> ai_content example_odd_call = PList [PDict [(''type'', PStr ''text''), (''text'', PInt 5)]]
   \<and> handle_ai_message example_odd_call example_task example_updater example_world
       = (Inl ValidationError, example_world)
   \<and> queue example_world = []"
  by (simp add: example_odd_call_raises) (simp add: example_odd_call_def example_world_def)

text \<open>
  C8, amended. Let every text of an assistant message be a string. Then the handler
  returns without raising, and the queue grows by the text events of the message
  followed by the tool-call events: all texts come first, and there is exactly one
  event per tool call, the \<open>i\<close>-th event being that of the \<open>i\<close>-th call of the message's
  list. The event of a call is a working, non-final status event whose message has one
  part, the structured data equal to the call's arguments, and the metadata
  \<open>type = "tool-call"\<close>, \<open>toolCallId\<close> (the call's id) and \<open>toolCallName\<close> (the call's
  name). The handler of a single call never raises and appends exactly that event.
\<close>

theorem handle_ai_message_tool_calls:
  assumes "well_formed_texts m"
  shows "\<exists>w' texts calls.
     map PStr texts = content_texts (ai_content m)
   \<and> handle_ai_message m task tu w = (Inr (), w')
   \<and> queue w' = queue w @ text_events task tu (uuids_drawn w) texts @ calls
   \<and> length calls = length (ai_tool_calls m)
   \<and> (\<forall>i < length (ai_tool_calls m).
         calls ! i = tool_call_status task tu (uuids_drawn w + length texts + i)
                       (ai_tool_calls m ! i))
   \<and> (\<forall>n tc. is_working_status (tool_call_status task tu n tc)
         \<and> (\<exists>u msg. tool_call_status task tu n tc = TaskStatusUpdateEvent u
               \<and> su_message u = Some msg
               \<and> m_parts msg = [PartData (tc_args tc)]
               \<and> m_metadata msg = Some [(''type'', PStr ''tool-call''),
                                         (''toolCallId'', of_optional (tc_id tc)),
                                         (''toolCallName'', PStr (tc_name tc))]))
   \<and> (\<forall>tc. \<exists>w1. handle_tool_call tc task tu w = (Inr (), w1)
         \<and> queue w1 = queue w @ [tool_call_status task tu (uuids_drawn w) tc])"
proof -
  let ?texts = "leading_strings (content_texts (ai_content m))"
  let ?calls = "tool_call_events task tu (uuids_drawn w + length ?texts) (ai_tool_calls m)"
  let ?w' = "add_events (ai_message_events task tu (uuids_drawn w) m) w"
  have strings: "map PStr ?texts = content_texts (ai_content m)"
    using assms by (simp add: well_formed_texts_def leading_strings_all)
  have count_texts: "length ?texts = length (content_texts (ai_content m))"
    using assms by (simp add: well_formed_texts_def length_leading_strings)
  have run: "handle_ai_message m task tu w = (Inr (), ?w')"
    using assms by (simp add: handle_ai_message_eq)
  have queue: "queue ?w' = queue w @ text_events task tu (uuids_drawn w) ?texts @ ?calls"
    using assms count_texts by (simp add: queue_add_events ai_message_events_def)
  have count: "length ?calls = length (ai_tool_calls m)"
    by (rule length_tool_call_events)
  have order: "\<forall>i < length (ai_tool_calls m).
      ?calls ! i = tool_call_status task tu (uuids_drawn w + length ?texts + i)
                     (ai_tool_calls m ! i)"
    by (simp add: nth_tool_call_events)
  have shape: "\<forall>n tc. is_working_status (tool_call_status task tu n tc)
      \<and> (\<exists>u msg. tool_call_status task tu n tc = TaskStatusUpdateEvent u
            \<and> su_message u = Some msg
            \<and> m_parts msg = [PartData (tc_args tc)]
            \<and> m_metadata msg = Some [(''type'', PStr ''tool-call''),
                                      (''toolCallId'', of_optional (tc_id tc)),
                                      (''toolCallName'', PStr (tc_name tc))])"
    by (simp add: tool_call_status_def)
  have one: "\<forall>tc. \<exists>w1. handle_tool_call tc task tu w = (Inr (), w1)
      \<and> queue w1 = queue w @ [tool_call_status task tu (uuids_drawn w) tc]"
    by (simp add: handle_tool_call_events queue_add_events)
  show ?thesis
    using strings run queue count order shape one by blast
qed

theorem handle_ai_message_tool_calls_witness:
  "well_formed_texts example_ai
   \<and> length (ai_tool_calls example_ai) = 1 \<and> 0 < length (ai_tool_calls example_ai)
   \<and> (\<exists>w'. handle_ai_message example_ai example_task example_updater example_world
              = (Inr (), w')
          \<and> queue w' =
              [agent_text_status example_task example_updater TS_working False 0
                 ''Let me look.'',
               agent_text_status example_task example_updater TS_working False 1
                 ''Calling a tool.'',
               tool_call_status example_task example_updater 2 example_call])"
proof -
  have calls: "ai_tool_calls example_ai = [example_call]"
    by (simp add: example_ai_def)
  have texts: "content_texts (ai_content example_ai)
      = [PStr ''Let me look.'', PStr ''Calling a tool.'']"
    by (simp add: example_ai_def dict_get_def)
  have wf: "well_formed_texts example_ai"
    by (simp add: well_formed_texts_def texts)
  have start: "queue example_world = [] \<and> uuids_drawn example_world = 0"
    by (simp add: example_world_def)
  from handle_ai_message_tool_calls [OF wf, of example_task example_updater example_world]
  obtain w' ts cs where strings: "map PStr ts = content_texts (ai_content example_ai)"
    and run: "handle_ai_message example_ai example_task example_updater example_world
        = (Inr (), w')"
    and queue: "queue w' = queue example_world
        @ text_events example_task example_updater (uuids_drawn example_world) ts @ cs"
    and count: "length cs = length (ai_tool_calls example_ai)"
    and order: "\<forall>i < length (ai_tool_calls example_ai).
        cs ! i = tool_call_status example_task example_updater
                   (uuids_drawn example_world + length ts + i) (ai_tool_calls example_ai ! i)"
    by blast
  from strings texts have "map PStr ts = map PStr [''Let me look.'', ''Calling a tool.'']"
    by simp
  then have ts: "ts = [''Let me look.'', ''Calling a tool.'']"
    by (rule map_PStr_eq)
  from count calls have "length cs = 1" by simp
  then obtain c where cs: "cs = [c]"
    by (cases cs) simp_all
  from order calls ts start cs
  have "c = tool_call_status example_task example_updater 2 example_call"
    by (simp add: numeral_2_eq_2)
  with cs queue ts start
  have "queue w' =
      [agent_text_status example_task example_updater TS_working False 0 ''Let me look.'',
       agent_text_status example_task example_updater TS_working False 1 ''Calling a tool.'',
       tool_call_status example_task example_updater 2 example_call]"
    by (simp add: text_events_def)
  with run calls wf show ?thesis by simp
qed

section \<open>The artifact of a completed response\<close>

text \<open>
  What the artifact builder does, case by case: a data artifact for an output that is a
  text decoding to a dictionary, a text artifact for a text whose decoding raises
  \<^verbatim>\<open>JSONDecodeError\<close>, and \<^verbatim>\<open>ValidationError\<close> with nothing queued for a text
  decoding to any other value and for an output that is no text.
\<close>

lemma handle_structured_response_artifact_object:
  "artifact_output sr = PStr s \<Longrightarrow> decode s = Inr (PDict d) \<Longrightarrow>
   handle_structured_response_artifact decode sr task w =
     (Inr (), add_events [artifact_event sr task (uuids_drawn w) (PartData d)] w)"
  by (simp add: handle_structured_response_artifact_eq parsed_part_def)

lemma handle_structured_response_artifact_undecodable:
  "artifact_output sr = PStr s \<Longrightarrow> decode s = Inl JSONDecodeError \<Longrightarrow>
   handle_structured_response_artifact decode sr task w =
     (Inr (), add_events [artifact_event sr task (uuids_drawn w) (PartText s)] w)"
  by (simp add: handle_structured_response_artifact_eq parsed_part_def)

lemma handle_structured_response_artifact_not_object:
  "artifact_output sr = PStr s \<Longrightarrow> decode s = Inr v \<Longrightarrow> \<forall>d. v \<noteq> PDict d \<Longrightarrow>
   handle_structured_response_artifact decode sr task w = (Inl ValidationError, w)"
  by (cases v) (simp_all add: handle_structured_response_artifact_eq parsed_part_def)

lemma handle_structured_response_artifact_not_text:
  "\<not> is_str (artifact_output sr) \<Longrightarrow>
   handle_structured_response_artifact decode sr task w = (Inl ValidationError, w)"
  by (cases "artifact_output sr")
     (simp_all add: handle_structured_response_artifact_eq parsed_part_def)

text \<open>
  C4. The claim fails on the code. For the artifact output \<^verbatim>\<open>[1, 2]\<close>, which is JSON
  but no JSON object, \<^verbatim>\<open>json.loads\<close> succeeds and \<^verbatim>\<open>new_data_artifact\<close> rejects the
  value; for the output \<^verbatim>\<open>None\<close> the fallback's \<^verbatim>\<open>new_text_artifact\<close> rejects it.
  The \<^verbatim>\<open>ValidationError\<close> is not caught: the builder raises and no artifact event is
  emitted, where the claim promises an artifact and no exception.
\<close>

theorem handle_structured_response_artifact_rejects_non_object:
  "example_decode ''[1, 2]'' = Inr (PList [PInt 1, PInt 2])
   \<and> handle_structured_response_artifact example_decode
       (example_response TS_completed ''All done.'' (PStr ''[1, 2]'')) example_task example_world
       = (Inl ValidationError, example_world)
   \<and> handle_structured_response_artifact example_decode
       (example_response TS_completed ''All done.'' PNone) example_task example_world
       = (Inl ValidationError, example_world)
   \<and> queue example_world = []"
  by (simp add: handle_structured_response_artifact_eq parsed_part_def example_decode_def
      example_response_def example_world_def)

section \<open>Missing input\<close>

text \<open>
  C9. A request that carries no message makes \<^verbatim>\<open>execute\<close> raise the missing-input
  error at once: the queue, the log and the identifier supply are as they were, so no
  task, status or artifact event has been emitted.
\<close>

theorem execute_no_message:
  "rc_message ctx = None \<Longrightarrow>
   execute decode g ctx w = (Inl (Exception ''No message in context''), w)"
  by (simp add: execute_def)

theorem execute_no_message_witness:
  "rc_message (example_ctx\<lparr>rc_message := None\<rparr>) = None
   \<and> execute example_decode (example_graph []) (example_ctx\<lparr>rc_message := None\<rparr>) example_world
       = (Inl (Exception ''No message in context''), example_world)"
  using execute_no_message
      [of "example_ctx\<lparr>rc_message := None\<rparr>" example_decode "example_graph []" example_world]
  by simp

section \<open>The structured response\<close>

text \<open>
  A completed response whose artifact is built: the events emitted by the execution end
  with the artifact event followed at once by the final status event of state
  "completed" with the response's message, and no earlier event is an artifact event or
  a final status event.
\<close>

lemma execute_completed_built:
  assumes "rc_message ctx = Some request"
    and "resolve_task ctx request w = (Inr task, w1)"
    and "stream_loop decode task (TaskUpdater (t_id task) (t_contextId task))
           (astream g (graph_inputs ctx) (graph_config task)) {} w1 = (Inr ids, w2)"
    and "values_get (snapshot_values (get_state g (graph_config task))) ''structured_response''
           = Structured sr"
    and "task_state sr = TS_completed"
    and "parsed_part decode (artifact_output sr) = Inr p"
  shows "\<exists>w' pre a s.
           a = artifact_event sr task (uuids_drawn w2) p
         \<and> s = agent_text_status task (TaskUpdater (t_id task) (t_contextId task))
                 TS_completed True (Suc (uuids_drawn w2)) (task_state_message sr)
         \<and> execute decode g ctx w = (Inr (), w')
         \<and> queue w2 = queue w @ pre
         \<and> queue w' = queue w @ pre @ [a, s]
         \<and> (\<forall>e \<in> set pre. \<not> is_final_status e \<and> \<not> is_artifact e)
         \<and> filter is_artifact (drop (length (queue w)) (queue w')) = [a]
         \<and> filter is_final_status (drop (length (queue w)) (queue w')) = [s]"
proof -
  let ?tu = "TaskUpdater (t_id task) (t_contextId task)"
  from execute_reaches_finalizer [OF assms(1,2,3)]
  obtain pre
    where run: "execute decode g ctx w =
        handle_structured_response decode g (graph_config task) task ?tu w2"
      and queue: "queue w2 = queue w @ pre"
      and pre: "\<forall>e \<in> set pre. \<not> is_final_status e \<and> \<not> is_artifact e"
    by blast
  let ?a = "artifact_event sr task (uuids_drawn w2) p"
  let ?s = "agent_text_status task ?tu TS_completed True (Suc (uuids_drawn w2))
              (task_state_message sr)"
  let ?w' = "add_events [?a, ?s] w2"
  have finalizer: "execute decode g ctx w = (Inr (), ?w')"
    using assms(4,5,6) by (simp add: run handle_structured_response_eq)
  have whole: "queue ?w' = queue w @ pre @ [?a, ?s]"
    by (simp add: queue_add_events queue)
  have kinds: "is_artifact ?a \<and> \<not> is_artifact ?s \<and> is_final_status ?s \<and> \<not> is_final_status ?a"
    by (simp add: artifact_event_def agent_text_status_def)
  have artifacts: "filter is_artifact (drop (length (queue w)) (queue ?w')) = [?a]"
    using pre kinds by (simp add: whole filter_none)
  have finals: "filter is_final_status (drop (length (queue w)) (queue ?w')) = [?s]"
    using pre kinds by (simp add: whole filter_none)
  show ?thesis
    using finalizer queue whole pre artifacts finals by blast
qed

text \<open>
  A completed response whose artifact is rejected: the execution raises at the artifact,
  in the world the stream has left, so neither an artifact event nor a final status
  event is emitted.
\<close>

lemma execute_completed_rejected:
  assumes "rc_message ctx = Some request"
    and "resolve_task ctx request w = (Inr task, w1)"
    and "stream_loop decode task (TaskUpdater (t_id task) (t_contextId task))
           (astream g (graph_inputs ctx) (graph_config task)) {} w1 = (Inr ids, w2)"
    and "values_get (snapshot_values (get_state g (graph_config task))) ''structured_response''
           = Structured sr"
    and "task_state sr = TS_completed"
    and "parsed_part decode (artifact_output sr) = Inl e"
  shows "execute decode g ctx w = (Inl e, w2)"
proof -
  from execute_reaches_finalizer [OF assms(1,2,3)]
  have "execute decode g ctx w =
      handle_structured_response decode g (graph_config task) task
        (TaskUpdater (t_id task) (t_contextId task)) w2"
    by blast
  then show ?thesis
    using assms(4,5,6) by (simp add: handle_structured_response_eq)
qed

text \<open>
  C3. The claim fails on the code. The sample run with a completed response whose
  artifact output is the text \<^verbatim>\<open>42\<close> reaches the finalizer; there \<^verbatim>\<open>json.loads\<close>
  gives the number 42, \<^verbatim>\<open>new_data_artifact\<close> rejects it, and the \<^verbatim>\<open>ValidationError\<close>
  leaves \<^verbatim>\<open>execute\<close> before the final status is sent. The queue holds what the stream
  has emitted: no artifact event and no final status event, where the claim promises one
  of each.
\<close>

theorem execute_completed_rejects_non_object:
  "task_state (example_response TS_completed ''All done.'' (PStr ''42'')) = TS_completed
   \<and> execute example_decode
       (example_graph (example_values (Structured (example_response TS_completed ''All done.''
                                                     (PStr ''42'')))))
       example_ctx example_world
       = (Inl ValidationError, example_streamed)
   \<and> filter is_artifact (queue example_streamed) = []
   \<and> filter is_final_status (queue example_streamed) = []"
proof -
  let ?sr = "example_response TS_completed ''All done.'' (PStr ''42'')"
  have completed: "task_state ?sr = TS_completed"
    by (simp add: example_response_def)
  have rejected: "parsed_part example_decode (artifact_output ?sr) = Inl ValidationError"
    by (simp add: parsed_part_def example_decode_def example_response_def)
  have run: "execute example_decode (example_graph (example_values (Structured ?sr)))
      example_ctx example_world = (Inl ValidationError, example_streamed)"
    by (rule execute_completed_rejected
          [OF example_message example_resolve example_stream example_values_get completed
              rejected])
  have none: "filter is_artifact (queue example_streamed) = []
      \<and> filter is_final_status (queue example_streamed) = []"
    by (simp add: example_streamed_def agent_text_status_def tool_call_status_def
        tool_result_status_def)
  show ?thesis
    using completed run none by simp
qed

text \<open>
  C5. Take an execution that reaches the finalizer (the request has a message, the task
  is resolved and the streaming loop returns) and whose structured response has an
  outcome state other than "completed". It returns without raising; the last event it
  has emitted is a final status event of that outcome state with the response's
  message; no other event it has emitted is final, and none is an artifact event.
\<close>

theorem execute_not_completed:
  assumes "rc_message ctx = Some request"
    and "resolve_task ctx request w = (Inr task, w1)"
    and "stream_loop decode task (TaskUpdater (t_id task) (t_contextId task))
           (astream g (graph_inputs ctx) (graph_config task)) {} w1 = (Inr ids, w2)"
    and "values_get (snapshot_values (get_state g (graph_config task))) ''structured_response''
           = Structured sr"
    and "task_state sr \<noteq> TS_completed"
  shows "\<exists>w' pre s.
           s = agent_text_status task (TaskUpdater (t_id task) (t_contextId task))
                 (task_state sr) True (uuids_drawn w2) (task_state_message sr)
         \<and> execute decode g ctx w = (Inr (), w')
         \<and> queue w2 = queue w @ pre
         \<and> queue w' = queue w @ pre @ [s]
         \<and> (\<forall>e \<in> set pre. \<not> is_final_status e \<and> \<not> is_artifact e)
         \<and> filter is_final_status (drop (length (queue w)) (queue w')) = [s]
         \<and> filter is_artifact (drop (length (queue w)) (queue w')) = []"
proof -
  let ?tu = "TaskUpdater (t_id task) (t_contextId task)"
  from execute_reaches_finalizer [OF assms(1,2,3)]
  obtain pre
    where run: "execute decode g ctx w =
        handle_structured_response decode g (graph_config task) task ?tu w2"
      and queue: "queue w2 = queue w @ pre"
      and pre: "\<forall>e \<in> set pre. \<not> is_final_status e \<and> \<not> is_artifact e"
    by blast
  let ?s = "agent_text_status task ?tu (task_state sr) True (uuids_drawn w2)
              (task_state_message sr)"
  let ?w' = "add_events [?s] w2"
  have finalizer: "execute decode g ctx w = (Inr (), ?w')"
    using assms(4,5) by (simp add: run handle_structured_response_eq)
  have whole: "queue ?w' = queue w @ pre @ [?s]"
    by (simp add: queue_add_events queue)
  have kinds: "is_final_status ?s \<and> \<not> is_artifact ?s"
    by (simp add: agent_text_status_def)
  have finals: "filter is_final_status (drop (length (queue w)) (queue ?w')) = [?s]"
    using pre kinds by (simp add: whole filter_none)
  have artifacts: "filter is_artifact (drop (length (queue w)) (queue ?w')) = []"
    using pre kinds by (simp add: whole filter_none)
  show ?thesis
    using finalizer queue whole pre artifacts finals by blast
qed

theorem execute_not_completed_witness:
  "rc_message example_ctx = Some example_request
   \<and> resolve_task example_ctx example_request example_world
       = (Inr example_new_task, example_started)
   \<and> stream_loop example_decode example_new_task
       (TaskUpdater (t_id example_new_task) (t_contextId example_new_task))
       (astream (example_graph
                   (example_values (Structured (example_response TS_input_required
                                                  ''need more info'' PNone))))
          (graph_inputs example_ctx) (graph_config example_new_task))
       {} example_started = (Inr example_seen, example_streamed)
   \<and> task_state (example_response TS_input_required ''need more info'' PNone) \<noteq> TS_completed
   \<and> (\<exists>w' pre s.
         s = agent_text_status example_new_task
               (TaskUpdater (t_id example_new_task) (t_contextId example_new_task))
               TS_input_required True (uuids_drawn example_streamed) ''need more info''
       \<and> execute example_decode
           (example_graph (example_values (Structured (example_response TS_input_required
                                                         ''need more info'' PNone))))
           example_ctx example_world = (Inr (), w')
       \<and> queue example_streamed = queue example_world @ pre
       \<and> queue w' = queue example_world @ pre @ [s]
       \<and> (\<forall>e \<in> set pre. \<not> is_final_status e \<and> \<not> is_artifact e)
       \<and> filter is_final_status (drop (length (queue example_world)) (queue w')) = [s]
       \<and> filter is_artifact (drop (length (queue example_world)) (queue w')) = [])"
proof -
  let ?sr = "example_response TS_input_required ''need more info'' PNone"
  have state: "task_state ?sr \<noteq> TS_completed"
    by (simp add: example_response_def)
  have fields: "task_state ?sr = TS_input_required
      \<and> task_state_message ?sr = ''need more info''"
    by (simp add: example_response_def)
  show ?thesis
    using execute_not_completed
        [OF example_message example_resolve example_stream example_values_get state]
      example_message example_resolve example_stream [of "example_values (Structured ?sr)"]
      state fields
    by simp
qed

section \<open>A graph that ends without a structured response\<close>

lemma values_get_absent: "map_of vs k = None \<Longrightarrow> values_get vs k = Plain PNone"
  by (simp add: values_get_def)

lemma values_get_present: "map_of vs k = Some v \<Longrightarrow> values_get vs k = v"
  by (simp add: values_get_def)

lemma handle_structured_response_falsy:
  "\<not> truthy_value (values_get (snapshot_values (get_state g config)) ''structured_response'') \<Longrightarrow>
   handle_structured_response decode g config task tu w = (Inl no_structured_response, w)"
  by (cases "values_get (snapshot_values (get_state g config)) ''structured_response''")
     (simp_all add: handle_structured_response_eq)

text \<open>
  C6. Take an execution that reaches the finalizer (the request has a message, the task
  is resolved and the streaming loop returns) and whose final graph state has no value
  under "structured_response". Then \<^verbatim>\<open>execute\<close> raises the error of the missing
  structured response, in the world the stream has left: every event emitted while
  streaming is still in the queue, and no event emitted by the execution is a final
  status event.
\<close>

theorem execute_without_structured_response:
  assumes "rc_message ctx = Some request"
    and "resolve_task ctx request w = (Inr task, w1)"
    and "stream_loop decode task (TaskUpdater (t_id task) (t_contextId task))
           (astream g (graph_inputs ctx) (graph_config task)) {} w1 = (Inr ids, w2)"
    and "map_of (snapshot_values (get_state g (graph_config task))) ''structured_response'' = None"
  shows "\<exists>pre.
           execute decode g ctx w =
             (Inl (Exception ''No structured response. `graph` must have a `structured_response` state.''),
              w2)
         \<and> queue w2 = queue w @ pre
         \<and> (\<forall>e \<in> set pre. \<not> is_final_status e)"
proof -
  let ?tu = "TaskUpdater (t_id task) (t_contextId task)"
  from execute_reaches_finalizer [OF assms(1,2,3)]
  obtain pre
    where run: "execute decode g ctx w =
        handle_structured_response decode g (graph_config task) task ?tu w2"
      and queue: "queue w2 = queue w @ pre"
      and pre: "\<forall>e \<in> set pre. \<not> is_final_status e \<and> \<not> is_artifact e"
    by blast
  have "execute decode g ctx w = (Inl no_structured_response, w2)"
    by (simp add: run handle_structured_response_falsy values_get_absent [OF assms(4)])
  then show ?thesis
    using queue pre by (auto simp: no_structured_response_def)
qed

theorem execute_without_structured_response_witness:
  "rc_message example_ctx = Some example_request
   \<and> resolve_task example_ctx example_request example_world
       = (Inr example_new_task, example_started)
   \<and> stream_loop example_decode example_new_task
       (TaskUpdater (t_id example_new_task) (t_contextId example_new_task))
       (astream (example_graph [(''messages'', Plain (PList []))]) (graph_inputs example_ctx)
          (graph_config example_new_task))
       {} example_started = (Inr example_seen, example_streamed)
   \<and> map_of (snapshot_values (get_state (example_graph [(''messages'', Plain (PList []))])
               (graph_config example_new_task))) ''structured_response'' = None
   \<and> (\<exists>pre.
         execute example_decode (example_graph [(''messages'', Plain (PList []))]) example_ctx
           example_world =
           (Inl (Exception ''No structured response. `graph` must have a `structured_response` state.''),
            example_streamed)
       \<and> queue example_streamed = queue example_world @ pre
       \<and> (\<forall>e \<in> set pre. \<not> is_final_status e))"
proof -
  have absent: "map_of (snapshot_values (get_state (example_graph [(''messages'', Plain (PList []))])
      (graph_config example_new_task))) ''structured_response'' = None"
    by (simp add: example_graph_def)
  show ?thesis
    using execute_without_structured_response
        [OF example_message example_resolve example_stream absent]
      example_message example_resolve
      example_stream [of "[(''messages'', Plain (PList []))]"] absent
    by blast
qed

text \<open>
  C10. Take an execution that reaches the finalizer and whose final graph state has a
  falsy value, such as \<^verbatim>\<open>None\<close>, under "structured_response". Then \<^verbatim>\<open>execute\<close> raises
  the error of the missing structured response, in the world the stream has left, and
  the whole execution (outcome and world) is that of the same graph with an empty final
  state, where the key is absent. No event emitted by the execution is a final status
  event.
\<close>

theorem execute_falsy_structured_response:
  assumes "rc_message ctx = Some request"
    and "resolve_task ctx request w = (Inr task, w1)"
    and "stream_loop decode task (TaskUpdater (t_id task) (t_contextId task))
           (astream g (graph_inputs ctx) (graph_config task)) {} w1 = (Inr ids, w2)"
    and "map_of (snapshot_values (get_state g (graph_config task))) ''structured_response'' = Some v"
    and "\<not> truthy_value v"
  shows "\<exists>pre.
           execute decode g ctx w =
             (Inl (Exception ''No structured response. `graph` must have a `structured_response` state.''),
              w2)
         \<and> execute decode (g\<lparr>get_state := \<lambda>config. \<lparr>snapshot_values = []\<rparr>\<rparr>) ctx w
             = execute decode g ctx w
         \<and> queue w2 = queue w @ pre
         \<and> (\<forall>e \<in> set pre. \<not> is_final_status e)"
proof -
  let ?tu = "TaskUpdater (t_id task) (t_contextId task)"
  let ?g = "g\<lparr>get_state := \<lambda>config. \<lparr>snapshot_values = []\<rparr>\<rparr>"
  let ?evs = "astream g (graph_inputs ctx) (graph_config task)"
  from execute_reaches_finalizer [OF assms(1,2,3)]
  obtain pre
    where run: "execute decode g ctx w =
        handle_structured_response decode g (graph_config task) task ?tu w2"
      and queue: "queue w2 = queue w @ pre"
      and pre: "\<forall>e \<in> set pre. \<not> is_final_status e \<and> \<not> is_artifact e"
    by blast
  have present: "execute decode g ctx w = (Inl no_structured_response, w2)"
    using assms(5)
    by (simp add: run handle_structured_response_falsy values_get_present [OF assms(4)])
  have "execute decode ?g ctx w =
      (case stream_loop decode task ?tu ?evs {} w1 of
         (Inl e, w2) \<Rightarrow> (Inl e, w2)
       | (Inr ids, w2) \<Rightarrow>
           handle_structured_response decode ?g (graph_config task) task ?tu w2)"
    using execute_eq [OF assms(1,2), of decode ?g] by simp
  then have absent: "execute decode ?g ctx w = (Inl no_structured_response, w2)"
    by (simp add: assms(3) handle_structured_response_falsy values_get_def)
  show ?thesis
    using present absent queue pre by (auto simp: no_structured_response_def)
qed

theorem execute_falsy_structured_response_witness:
  "rc_message example_ctx = Some example_request
   \<and> resolve_task example_ctx example_request example_world
       = (Inr example_new_task, example_started)
   \<and> stream_loop example_decode example_new_task
       (TaskUpdater (t_id example_new_task) (t_contextId example_new_task))
       (astream (example_graph (example_values (Plain PNone))) (graph_inputs example_ctx)
          (graph_config example_new_task))
       {} example_started = (Inr example_seen, example_streamed)
   \<and> map_of (snapshot_values (get_state (example_graph (example_values (Plain PNone)))
               (graph_config example_new_task))) ''structured_response'' = Some (Plain PNone)
   \<and> \<not> truthy_value (Plain PNone)
   \<and> (\<exists>pre.
         execute example_decode (example_graph (example_values (Plain PNone))) example_ctx
           example_world =
           (Inl (Exception ''No structured response. `graph` must have a `structured_response` state.''),
            example_streamed)
       \<and> execute example_decode
           ((example_graph (example_values (Plain PNone)))
              \<lparr>get_state := \<lambda>config. \<lparr>snapshot_values = []\<rparr>\<rparr>)
           example_ctx example_world
           = execute example_decode (example_graph (example_values (Plain PNone))) example_ctx
               example_world
       \<and> queue example_streamed = queue example_world @ pre
       \<and> (\<forall>e \<in> set pre. \<not> is_final_status e))"
proof -
  have present: "map_of (snapshot_values (get_state (example_graph (example_values (Plain PNone)))
      (graph_config example_new_task))) ''structured_response'' = Some (Plain PNone)"
    by (simp add: example_graph_def example_values_def)
  have falsy: "\<not> truthy_value (Plain PNone)"
    by simp
  show ?thesis
    using execute_falsy_structured_response
        [OF example_message example_resolve example_stream present falsy]
      example_message example_resolve example_stream [of "example_values (Plain PNone)"]
      present falsy
    by blast
qed

section \<open>The sample run, computed\<close>

text \<open>
  The sample request on the sample graph with a completed response whose artifact output
  is a JSON object: after the events of the stream come the data artifact and the final
  status.
\<close>

lemma example_run:
  \<open>execute example_decode
     (example_graph (example_values (Structured (example_response TS_completed ''All done.''
                                                   (PStr ''{"x":1}'')))))
     example_ctx example_world =
   (Inr (),
    add_events
      [artifact_event (example_response TS_completed ''All done.'' (PStr ''{"x":1}''))
         example_new_task 6 (PartData [(''x'', PInt 1)]),
       agent_text_status example_new_task
         (TaskUpdater (t_id example_new_task) (t_contextId example_new_task))
         TS_completed True 7 ''All done.'']
      example_streamed)\<close>
proof -
  let ?sr = \<open>example_response TS_completed ''All done.'' (PStr ''{"x":1}'')\<close>
  have run: "execute example_decode (example_graph (example_values (Structured ?sr)))
      example_ctx example_world =
      handle_structured_response example_decode (example_graph (example_values (Structured ?sr)))
        (graph_config example_new_task) example_new_task
        (TaskUpdater (t_id example_new_task) (t_contextId example_new_task)) example_streamed"
    using execute_reaches_finalizer [OF example_message example_resolve example_stream]
    by blast
  show ?thesis
    by (simp add: run handle_structured_response_eq example_values_get)
       (simp add: example_response_def parsed_part_def example_decode_def example_streamed_def
          eval_nat_numeral)
qed

text \<open>
  The two plain-text examples of the specification: a tool result \<^verbatim>\<open>not json\<close> and an
  artifact output \<^verbatim>\<open>plain text\<close> are passed on as text.
\<close>

lemma example_tool_text_event:
  "handle_tool_message example_decode example_tool_text example_task example_updater example_world =
     (Inr (),
      \<lparr>queue = [tool_result_status example_task example_updater 0 example_tool_text
                  (PartText ''not json'')],
       log = [], uuids_drawn = 1\<rparr>)"
  by (simp add: handle_tool_message_eq add_events_def example_world_def example_tool_text_def
      parsed_part_def example_decode_def)

lemma example_text_artifact:
  "handle_structured_response_artifact example_decode
     (example_response TS_completed ''All done.'' (PStr ''plain text'')) example_task example_world =
     (Inr (),
      \<lparr>queue =
         [TaskArtifactUpdateEvent
            \<lparr>au_artifact =
               \<lparr>a_artifactId = Uuid4 0, a_name = ''Weather'',
                a_description = ''The weather in Paris'',
                a_parts = [PartText ''plain text'']\<rparr>,
             au_contextId = Ident ''ctx-1'', au_taskId = Ident ''task-1''\<rparr>],
       log = [], uuids_drawn = 1\<rparr>)"
  by (simp add: handle_structured_response_artifact_eq add_events_def example_world_def
      artifact_event_def parsed_part_def example_decode_def example_response_def
      example_task_def)

text \<open>
  A tool result that is rejected ends the execution in the middle of the stream: with
  the tool result \<^verbatim>\<open>42\<close> as the third tick's last message, \<^verbatim>\<open>execute\<close> raises there,
  after the events of the assistant message, and never reads the structured response.
\<close>

lemma example_stream_aborts:
  "execute example_decode
     ((example_graph vs)
        \<lparr>astream := \<lambda>inputs config.
           [[example_human], [example_human, AIMessage example_ai],
            [example_human, AIMessage example_ai, ToolMessage example_tool_number]]\<rparr>)
     example_ctx example_world =
   (Inl ValidationError,
    \<lparr>queue =
       [TaskEvent example_new_task,
        agent_text_status example_new_task example_new_updater TS_working False 1
          ''Let me look.'',
        agent_text_status example_new_task example_new_updater TS_working False 2
          ''Calling a tool.'',
        tool_call_status example_new_task example_new_updater 3 example_call],
     log = [example_human, AIMessage example_ai, ToolMessage example_tool_number],
     uuids_drawn = 4\<rparr>)"
  by (simp add: execute_def Let_def example_resolve example_message [simplified]
      example_ctx_def [symmetric])
     (simp add: stream_step_eq example_human_def example_ai_def example_tool_number_def
        logger_info_def add_events_def example_started_def ai_message_events_def
        well_formed_texts_def text_events_def tool_call_events_def dict_get_def
        parsed_part_def example_decode_def example_new_task_def example_new_updater_def
        eval_nat_numeral)

end
